theory Spec2Isabelle
  imports Main "HOL-Library.Sublist"
begin

section \<open>Python strings, lists and exceptions\<close>

text \<open>
  The notebook \<^verbatim>\<open>resuming_training.ipynb\<close> defines two trainer callbacks that mirror a
  local checkpoint directory to a bucket, and the class \<^verbatim>\<open>CloudCheckpointLoader\<close> that
  fetches the most recent checkpoint back.  Exceptions are values of the type \<open>error\<close>; a
  function that may raise returns \<open>error + 'a\<close>, with \<open>Inl\<close> for the exception.
  The exceptions of the storage clients have constructors of their own, so that they are
  never confused with the ones the notebook raises itself.
\<close>

datatype error =
    AssertionError string
  | ValueError string
  | KeyError string
  | IndexError string
  | FileNotFoundError string
  | NotADirectoryError string
  | IsADirectoryError string
  | OSError string
  | S3UploadFailedError string
  | ClientError string
  | GoogleCloudError string

text \<open>\<^verbatim>\<open>str(n)\<close> of a Python integer, as \<^verbatim>\<open>"{}".format(n)\<close> prints it.\<close>

definition digit_char :: "nat \<Rightarrow> char" where
  "digit_char d = ''0123456789'' ! d"

fun str_nat :: "nat \<Rightarrow> string" where
  "str_nat n = (if n < 10 then [digit_char n] else str_nat (n div 10) @ [digit_char (n mod 10)])"

declare str_nat.simps [simp del]

definition str_int :: "int \<Rightarrow> string" where
  "str_int i = (if i < 0 then CHR ''-'' # str_nat (nat (- i)) else str_nat (nat i))"

text \<open>\<^verbatim>\<open>sep.join(parts)\<close>.\<close>

fun py_join :: "string \<Rightarrow> string list \<Rightarrow> string" where
  "py_join sep [] = []"
| "py_join sep [x] = x"
| "py_join sep (x # y # ys) = x @ sep @ py_join sep (y # ys)"

text \<open>
  \<^verbatim>\<open>s.split(sep)\<close> for a separator of one character: the empty string gives one empty
  component, and every separator starts a new component.
\<close>

fun py_split :: "char \<Rightarrow> string \<Rightarrow> string list" where
  "py_split sep [] = [[]]"
| "py_split sep (c # cs) =
     (if c = sep then [] # py_split sep cs
      else (case py_split sep cs of
              [] \<Rightarrow> [[c]]
            | w # ws \<Rightarrow> (c # w) # ws))"

text \<open>\<^verbatim>\<open>sub in s\<close> on strings: \<open>sub\<close> occurs in \<open>s\<close> as a contiguous substring.\<close>

fun py_in :: "string \<Rightarrow> string \<Rightarrow> bool" where
  "py_in sub [] = (sub = [])"
| "py_in sub (c # cs) = (prefix sub (c # cs) \<or> py_in sub cs)"

text \<open>\<^verbatim>\<open>xs[-1]\<close> and \<^verbatim>\<open>xs[1]\<close>: both raise IndexError out of range.\<close>

definition item_last :: "'a list \<Rightarrow> error + 'a" where
  "item_last xs = (if xs = [] then Inl (IndexError ''list index out of range'') else Inr (last xs))"

definition item_1 :: "'a list \<Rightarrow> error + 'a" where
  "item_1 xs = (if length xs < 2 then Inl (IndexError ''list index out of range'') else Inr (xs ! 1))"

section \<open>Configuration, the outside world and the effects\<close>

text \<open>The global variables of the notebook that the classes read.\<close>

record globals =
  training_name :: string
  s3_bucket_name :: string
  gcs_bucket_name :: string

text \<open>The one field of \<^verbatim>\<open>TrainerState\<close> that the callbacks read.\<close>

record TrainerState =
  global_step :: int

text \<open>
  The local file system at a path: a regular file with its bytes, or a directory with
  its entries (name and what is there).
\<close>

datatype node = File string | Dir "(string \<times> node) list"

text \<open>
  A Python \<^verbatim>\<open>datetime\<close> of a store, as the instant it denotes: microseconds since
  the epoch.
\<close>

type_synonym datetime = int

text \<open>
  An entry of \<^verbatim>\<open>response["Contents"]\<close> of \<^verbatim>\<open>list_objects_v2\<close>, and a blob of
  \<^verbatim>\<open>bucket.list_blobs()\<close>, each with the time stamp the store gave it.
  The response of S3 has no \<^verbatim>\<open>Contents\<close> entry when the bucket holds no object.
\<close>

record s3_object =
  Key :: string
  LastModified :: datetime

record list_objects_response =
  Contents :: "s3_object list option"

record blob =
  name :: string
  time_created :: datetime

text \<open>
  The calls that leave the process or write to the local disk, with their arguments in
  the order of the source.
\<close>

datatype call =
    Print string
  | S3_list_objects_v2 string
  | S3_upload_file string string string
  | S3_download_file string string string
  | GCS_get_bucket string
  | GCS_list_blobs string
  | GCS_upload_from_filename string string string
  | GCS_download_to_filename string string string
  | Os_makedirs string

fun is_network :: "call \<Rightarrow> bool" where
  "is_network (Print _) = False"
| "is_network (Os_makedirs _) = False"
| "is_network _ = True"

fun is_fs_write :: "call \<Rightarrow> bool" where
  "is_fs_write (Os_makedirs _) = True"
| "is_fs_write (S3_download_file _ _ _) = True"
| "is_fs_write (GCS_download_to_filename _ _ _) = True"
| "is_fs_write _ = False"

text \<open>
  What the outside world answers: the local directory tree that the trainer wrote, the
  listing of each bucket, which calls fail for a reason outside the program (the store
  refuses, the network is down, a permission is missing; such a call raises the
  exception of its client), and the number that \<^verbatim>\<open>int(t.strftime('%s'))\<close> gives for
  a time stamp \<open>t\<close>.  The \<^verbatim>\<open>%s\<close> of the C library reads the calendar fields of \<open>t\<close>
  as local time and gives whole seconds, so the number depends on the time zone of the
  process and need not grow with \<open>t\<close>; it is a function of the environment, and the
  sort of the loader sees the time stamps through it only.
\<close>

record env =
  local_fs :: "string \<Rightarrow> node option"
  s3_response :: "string \<Rightarrow> list_objects_response"
  gcs_blobs :: "string \<Rightarrow> blob list"
  raises :: "call \<Rightarrow> bool"
  strftime_s :: "datetime \<Rightarrow> int"

text \<open>
  A local path, as the loader's writes see it: whether it is absolute, and its
  components, without the empty ones and the \<^verbatim>\<open>.\<close> ones.  Paths are compared in this
  form; \<^verbatim>\<open>..\<close> and symbolic links are not resolved.
\<close>

type_synonym lpath = "bool \<times> string list"

definition local_path :: "string \<Rightarrow> lpath" where
  "local_path p =
     ((case p of [] \<Rightarrow> False | c # _ \<Rightarrow> c = CHR ''/''),
      filter (\<lambda>c. c \<noteq> [] \<and> c \<noteq> ''.'') (py_split CHR ''/'' p))"

definition parent :: "lpath \<Rightarrow> lpath" where
  "parent p = (fst p, butlast (snd p))"

text \<open>The directory itself and the directories above it, outermost first.\<close>

definition makedirs_paths :: "lpath \<Rightarrow> lpath list" where
  "makedirs_paths p = map (Pair (fst p)) (tl (prefixes (snd p)))"

text \<open>The working directory and the root always exist.\<close>

definition dir_exists :: "lpath list \<Rightarrow> lpath \<Rightarrow> bool" where
  "dir_exists dirs p = (snd p = [] \<or> p \<in> set dirs)"

text \<open>
  The state the code changes: the calls issued so far, oldest first; the objects
  written to the buckets (backend, bucket, key, bytes), oldest first, where the object
  at a key is the last one written there; the local directories that exist; and the
  local files that the loader has written, oldest first.
\<close>

datatype backend = S3 | GCS

record world =
  calls :: "call list"
  uploaded :: "(backend \<times> string \<times> string \<times> string) list"
  local_dirs :: "lpath list"
  local_files :: "lpath list"

definition issue :: "call \<Rightarrow> world \<Rightarrow> world" where
  "issue c w = w\<lparr>calls := calls w @ [c]\<rparr>"

definition os_listdir :: "env \<Rightarrow> string \<Rightarrow> error + (string \<times> node) list" where
  "os_listdir e path =
     (case local_fs e path of
        None \<Rightarrow> Inl (FileNotFoundError path)
      | Some (File _) \<Rightarrow> Inl (NotADirectoryError path)
      | Some (Dir entries) \<Rightarrow> Inr entries)"

text \<open>
  \<^verbatim>\<open>os.makedirs(path, exist_ok=True)\<close>: the directory and every missing directory
  above it are created.  It fails on the empty path, and when a file sits where a
  directory is needed.
\<close>

definition os_makedirs :: "env \<Rightarrow> string \<Rightarrow> world \<Rightarrow> (error + unit) \<times> world" where
  "os_makedirs e path w =
     (let w' = issue (Os_makedirs path) w;
          dirs = makedirs_paths (local_path path)
      in if path = [] then (Inl (FileNotFoundError path), w')
         else if raises e (Os_makedirs path) \<or> (\<exists>d \<in> set dirs. d \<in> set (local_files w'))
         then (Inl (OSError path), w')
         else (Inr (), w'\<lparr>local_dirs := local_dirs w' @ filter (\<lambda>d. d \<notin> set (local_dirs w')) dirs\<rparr>))"

text \<open>
  Opening a local file for writing: its directory must exist, and the name must not be
  that of a directory.
\<close>

definition local_write :: "string \<Rightarrow> world \<Rightarrow> error + world" where
  "local_write filename w =
     (let p = local_path filename
      in if filename = [] \<or> \<not> dir_exists (local_dirs w) (parent p)
         then Inl (FileNotFoundError filename)
         else if last filename = CHR ''/'' \<or> dir_exists (local_dirs w) p
         then Inl (IsADirectoryError filename)
         else Inr (w\<lparr>local_files := local_files w @ [p]\<rparr>))"

section \<open>The callbacks\<close>

text \<open>\<^verbatim>\<open>"{}/checkpoint-{}".format(training_name, state.global_step)\<close>\<close>

definition model_checkpoint_path :: "globals \<Rightarrow> TrainerState \<Rightarrow> string" where
  "model_checkpoint_path g state = training_name g @ ''/checkpoint-'' @ str_int (global_step state)"

text \<open>
  \<^verbatim>\<open>s3_client.upload_file(Filename, Bucket, Key)\<close>: the client opens the local file,
  which fails on a directory, and sends its bytes.
\<close>

definition s3_upload_file ::
  "env \<Rightarrow> string \<Rightarrow> node \<Rightarrow> string \<Rightarrow> string \<Rightarrow> world \<Rightarrow> (error + unit) \<times> world" where
  "s3_upload_file e filename nd bucket key w =
     (let w' = issue (S3_upload_file filename bucket key) w
      in case nd of
           Dir _ \<Rightarrow> (Inl (IsADirectoryError filename), w')
         | File bytes \<Rightarrow>
             if raises e (S3_upload_file filename bucket key)
             then (Inl (S3UploadFailedError key), w')
             else (Inr (), w'\<lparr>uploaded := uploaded w' @ [(S3, bucket, key, bytes)]\<rparr>))"

text \<open>\<^verbatim>\<open>blob = bucket.blob(name); blob.upload_from_filename(filename)\<close>\<close>

definition gcs_upload_from_filename ::
  "env \<Rightarrow> string \<Rightarrow> string \<Rightarrow> string \<Rightarrow> node \<Rightarrow> world \<Rightarrow> (error + unit) \<times> world" where
  "gcs_upload_from_filename e bucket blob_name filename nd w =
     (let w' = issue (GCS_upload_from_filename bucket blob_name filename) w
      in case nd of
           Dir _ \<Rightarrow> (Inl (IsADirectoryError filename), w')
         | File bytes \<Rightarrow>
             if raises e (GCS_upload_from_filename bucket blob_name filename)
             then (Inl (GoogleCloudError blob_name), w')
             else (Inr (), w'\<lparr>uploaded := uploaded w' @ [(GCS, bucket, blob_name, bytes)]\<rparr>))"

text \<open>
  The loop \<^verbatim>\<open>for filename in os.listdir(model_checkpoint)\<close> of
  \<^verbatim>\<open>SaveCheckpointsToS3Callback.on_save\<close>.  Each entry of the listing comes with what
  is at \<^verbatim>\<open>model_checkpoint/filename\<close>.  An exception leaves the loop.
\<close>

fun s3_upload_loop ::
  "globals \<Rightarrow> env \<Rightarrow> string \<Rightarrow> (string \<times> node) list \<Rightarrow> world \<Rightarrow> (error + unit) \<times> world" where
  "s3_upload_loop g e model_checkpoint [] w = (Inr (), w)"
| "s3_upload_loop g e model_checkpoint ((filename, nd) # rest) w =
     (let filename_path = py_join ''/'' [model_checkpoint, filename]
      in case s3_upload_file e filename_path nd (s3_bucket_name g) filename_path w of
           (Inl err, w') \<Rightarrow> (Inl err, w')
         | (Inr _, w') \<Rightarrow> s3_upload_loop g e model_checkpoint rest w')"

definition S3_on_save :: "globals \<Rightarrow> env \<Rightarrow> TrainerState \<Rightarrow> world \<Rightarrow> (error + unit) \<times> world" where
  "S3_on_save g e state w =
     (let model_checkpoint = model_checkpoint_path g state
      in case os_listdir e model_checkpoint of
           Inl err \<Rightarrow> (Inl err, w)
         | Inr entries \<Rightarrow> s3_upload_loop g e model_checkpoint entries w)"

text \<open>
  \<^verbatim>\<open>SaveCheckpointsToGCSCallback.on_save\<close>: the bucket is looked up first, then the same
  loop runs with the calls of the other client.
\<close>

definition gcs_get_bucket :: "env \<Rightarrow> string \<Rightarrow> world \<Rightarrow> (error + string) \<times> world" where
  "gcs_get_bucket e bucket_name w =
     (let w' = issue (GCS_get_bucket bucket_name) w
      in if raises e (GCS_get_bucket bucket_name)
         then (Inl (GoogleCloudError bucket_name), w')
         else (Inr bucket_name, w'))"

fun gcs_upload_loop ::
  "env \<Rightarrow> string \<Rightarrow> string \<Rightarrow> (string \<times> node) list \<Rightarrow> world \<Rightarrow> (error + unit) \<times> world" where
  "gcs_upload_loop e bucket model_checkpoint [] w = (Inr (), w)"
| "gcs_upload_loop e bucket model_checkpoint ((filename, nd) # rest) w =
     (let filename_path = py_join ''/'' [model_checkpoint, filename]
      in case gcs_upload_from_filename e bucket filename_path filename_path nd w of
           (Inl err, w') \<Rightarrow> (Inl err, w')
         | (Inr _, w') \<Rightarrow> gcs_upload_loop e bucket model_checkpoint rest w')"

definition GCS_on_save :: "globals \<Rightarrow> env \<Rightarrow> TrainerState \<Rightarrow> world \<Rightarrow> (error + unit) \<times> world" where
  "GCS_on_save g e state w =
     (let model_checkpoint = model_checkpoint_path g state
      in case gcs_get_bucket e (gcs_bucket_name g) w of
           (Inl err, w1) \<Rightarrow> (Inl err, w1)
         | (Inr bucket, w1) \<Rightarrow>
             (case os_listdir e model_checkpoint of
                Inl err \<Rightarrow> (Inl err, w1)
              | Inr entries \<Rightarrow> gcs_upload_loop e bucket model_checkpoint entries w1))"

section \<open>The loader\<close>

record CloudCheckpointLoader =
  bucket_type :: string

text \<open>
  \<^verbatim>\<open>CloudCheckpointLoader.__init__\<close>: the attribute is set, then the assertion runs
  (assertions are enabled, as they are in a notebook kernel).  The constructor issues no
  call.
\<close>

definition CloudCheckpointLoader_init ::
  "string \<Rightarrow> world \<Rightarrow> (error + CloudCheckpointLoader) \<times> world" where
  "CloudCheckpointLoader_init bucket_type_arg w =
     (let self = \<lparr>bucket_type = bucket_type_arg\<rparr>
      in if bucket_type self \<in> set [''s3'', ''gcs'']
         then (Inr self, w)
         else (Inl (AssertionError ''Invalid bucket type. Please choose either s3 or gcs''), w))"

text \<open>
  \<^verbatim>\<open>__get_last_checkpoint_from_s3\<close>.  The bucket of the listing is the literal of the
  source.  \<^verbatim>\<open>sorted\<close> is stable, as \<open>sort_key\<close> is; its key is
  \<^verbatim>\<open>int(obj['LastModified'].strftime('%s'))\<close>.
\<close>

definition get_last_checkpoint_from_s3 ::
  "globals \<Rightarrow> env \<Rightarrow> CloudCheckpointLoader \<Rightarrow> world \<Rightarrow> (error + string \<times> string list) \<times> world" where
  "get_last_checkpoint_from_s3 g e self w =
     (let w' = issue (S3_list_objects_v2 ''hf-demo-s3-checkpointing-sagemaker'') w
      in if raises e (S3_list_objects_v2 ''hf-demo-s3-checkpointing-sagemaker'')
         then (Inl (ClientError ''list_objects_v2''), w')
         else
           (let response = s3_response e ''hf-demo-s3-checkpointing-sagemaker''
            in case Contents response of
                 None \<Rightarrow> (Inl (KeyError ''Contents''), w')
               | Some contents \<Rightarrow>
                   (let sorted_content = sort_key (\<lambda>obj. strftime_s e (LastModified obj)) contents;
                        sorted_keys = map Key sorted_content
                    in case item_last sorted_keys of
                         Inl err \<Rightarrow> (Inl err, w')
                       | Inr last_key \<Rightarrow>
                           (case item_1 (py_split CHR ''/'' last_key) of
                              Inl err \<Rightarrow> (Inl err, w')
                            | Inr checkpoint_dir \<Rightarrow>
                                (let checkpoint_files = filter (py_in checkpoint_dir) sorted_keys
                                 in (Inr (checkpoint_dir, checkpoint_files), w'))))))"

text \<open>\<^verbatim>\<open>__get_last_checkpoint_from_gcs\<close>, on the bucket it is given.\<close>

definition get_last_checkpoint_from_gcs ::
  "globals \<Rightarrow> env \<Rightarrow> CloudCheckpointLoader \<Rightarrow> string \<Rightarrow> world
   \<Rightarrow> (error + string \<times> string list) \<times> world" where
  "get_last_checkpoint_from_gcs g e self bucket w =
     (let w' = issue (GCS_list_blobs bucket) w
      in if raises e (GCS_list_blobs bucket)
         then (Inl (GoogleCloudError ''list_blobs''), w')
         else
           (let blobs = gcs_blobs e bucket;
                sorted_content = sort_key (\<lambda>obj. strftime_s e (time_created obj)) blobs;
                sorted_keys = map name sorted_content
            in case item_last sorted_keys of
                 Inl err \<Rightarrow> (Inl err, w')
               | Inr last_key \<Rightarrow>
                   (case item_1 (py_split CHR ''/'' last_key) of
                      Inl err \<Rightarrow> (Inl err, w')
                    | Inr checkpoint_dir \<Rightarrow>
                        (let checkpoint_files = filter (py_in checkpoint_dir) sorted_keys
                         in (Inr (checkpoint_dir, checkpoint_files), w')))))"

text \<open>
  The two download loops of \<^verbatim>\<open>download_checkpoints\<close>
  (\<^verbatim>\<open>tqdm\<close> only draws a progress bar).  Each object is written to the local path that
  equals its key, so the directory of that path must exist.
  \<^verbatim>\<open>s3_client.download_file\<close> asks the store first and writes the file next;
  \<^verbatim>\<open>blob.download_to_filename\<close> opens the file first, asks the store next, and removes
  the file when the store refuses.
\<close>

fun s3_download_loop :: "globals \<Rightarrow> env \<Rightarrow> string list \<Rightarrow> world \<Rightarrow> (error + unit) \<times> world" where
  "s3_download_loop g e [] w = (Inr (), w)"
| "s3_download_loop g e (file # rest) w =
     (let w' = issue (S3_download_file (s3_bucket_name g) file file) w
      in if raises e (S3_download_file (s3_bucket_name g) file file)
         then (Inl (ClientError file), w')
         else (case local_write file w' of
                 Inl err \<Rightarrow> (Inl err, w')
               | Inr w'' \<Rightarrow> s3_download_loop g e rest w''))"

fun gcs_download_loop :: "env \<Rightarrow> string \<Rightarrow> string list \<Rightarrow> world \<Rightarrow> (error + unit) \<times> world" where
  "gcs_download_loop e bucket [] w = (Inr (), w)"
| "gcs_download_loop e bucket (file # rest) w =
     (let w' = issue (GCS_download_to_filename bucket file file) w
      in case local_write file w' of
           Inl err \<Rightarrow> (Inl err, w')
         | Inr w'' \<Rightarrow>
             if raises e (GCS_download_to_filename bucket file file)
             then (Inl (GoogleCloudError file), w')
             else gcs_download_loop e bucket rest w'')"

text \<open>
  \<^verbatim>\<open>download_checkpoints\<close>.  No branch has a \<^verbatim>\<open>return\<close> statement, so a call that
  does not raise returns Python's \<^verbatim>\<open>None\<close>, the \<open>None\<close> of the result type.
\<close>

definition download_checkpoints ::
  "globals \<Rightarrow> env \<Rightarrow> CloudCheckpointLoader \<Rightarrow> world \<Rightarrow> (error + string option) \<times> world" where
  "download_checkpoints g e self w =
     (if bucket_type self = ''s3'' then
        (let w1 = issue (Print ''Downloading checkpoints from S3...'') w
         in case get_last_checkpoint_from_s3 g e self w1 of
              (Inl err, w2) \<Rightarrow> (Inl err, w2)
            | (Inr (checkpoint_dir, checkpoint_files), w2) \<Rightarrow>
                (let path_to_checkpoint = py_join ''/'' [training_name g, checkpoint_dir]
                 in case os_makedirs e path_to_checkpoint w2 of
                      (Inl err, w3) \<Rightarrow> (Inl err, w3)
                    | (Inr _, w3) \<Rightarrow>
                        (case s3_download_loop g e checkpoint_files w3 of
                           (Inl err, w4) \<Rightarrow> (Inl err, w4)
                         | (Inr _, w4) \<Rightarrow> (Inr None, w4))))
      else if bucket_type self = ''gcs'' then
        (case gcs_get_bucket e (gcs_bucket_name g) w of
           (Inl err, w0) \<Rightarrow> (Inl err, w0)
         | (Inr bucket, w0) \<Rightarrow>
             (let w1 = issue (Print ''Downloading checkpoints from GCS...'') w0
              in case get_last_checkpoint_from_gcs g e self bucket w1 of
                   (Inl err, w2) \<Rightarrow> (Inl err, w2)
                 | (Inr (checkpoint_dir, checkpoint_files), w2) \<Rightarrow>
                     (let path_to_checkpoint = py_join ''/'' [training_name g, checkpoint_dir]
                      in case os_makedirs e path_to_checkpoint w2 of
                           (Inl err, w3) \<Rightarrow> (Inl err, w3)
                         | (Inr _, w3) \<Rightarrow>
                             (case gcs_download_loop e bucket checkpoint_files w3 of
                                (Inl err, w4) \<Rightarrow> (Inl err, w4)
                              | (Inr _, w4) \<Rightarrow> (Inr None, w4)))))
      else (Inl (ValueError ''Invalid bucket type. Please choose either s3 or gcs''), w))"

section \<open>Notions used to state the properties\<close>

text \<open>
  The regular files inside a directory, directly and in its subdirectories, each with
  its path: the enumeration that the specification of the publisher describes.
\<close>

fun files_under :: "string \<Rightarrow> node \<Rightarrow> string list" where
  "files_under path (File _) = [path]"
| "files_under path (Dir entries) =
     concat (map (\<lambda>(n, nd). files_under (py_join ''/'' [path, n]) nd) entries)"

text \<open>The upload calls of a list of calls, each as local file name and remote key.\<close>

fun uploads_of :: "call list \<Rightarrow> (string \<times> string) list" where
  "uploads_of [] = []"
| "uploads_of (S3_upload_file filename bucket key # cs) = (filename, key) # uploads_of cs"
| "uploads_of (GCS_upload_from_filename bucket blob_name filename # cs) =
     (filename, blob_name) # uploads_of cs"
| "uploads_of (c # cs) = uploads_of cs"

text \<open>The objects written, each as key and bytes, whatever the backend and the bucket.\<close>

definition objects_of :: "(backend \<times> string \<times> string \<times> string) list \<Rightarrow> (string \<times> string) list" where
  "objects_of ups = map (\<lambda>(bk, bucket, key, bytes). (key, bytes)) ups"

text \<open>The values of the notebook's configuration cell, and a world where nothing has happened.\<close>

definition notebook_globals :: globals where
  "notebook_globals =
     \<lparr>training_name = ''trainer-demo-checkpointing'',
      s3_bucket_name = ''hf-demo-s3-checkpointing-sagemaker'',
      gcs_bucket_name = ''hf-demo-gcs-checkpointing''\<rparr>"

definition run_globals :: globals where
  "run_globals = \<lparr>training_name = ''run'', s3_bucket_name = ''my-bucket'', gcs_bucket_name = ''my-gcs''\<rparr>"

definition world0 :: world where
  "world0 = \<lparr>calls = [], uploaded = [], local_dirs = [], local_files = []\<rparr>"

text \<open>
  Two platforms for the examples.  On the first the process runs in UTC, where
  \<^verbatim>\<open>%s\<close> gives the seconds of the instant.  On the second it runs in the time zone
  of Paris, and the time stamps carry a UTC zone without daylight-saving information,
  as those of GCS do: \<^verbatim>\<open>%s\<close> reads their fields as Paris time, one hour ahead of
  UTC before 26 March 2023, 03:00, and two hours ahead from then on (valid for the
  instants of that winter and summer).
\<close>

definition utc_strftime_s :: "datetime \<Rightarrow> int" where
  "utc_strftime_s t = t div 1000000"

definition paris_strftime_s :: "datetime \<Rightarrow> int" where
  "paris_strftime_s t =
     (if t div 1000000 < 1679799600 then t div 1000000 - 3600 else t div 1000000 - 7200)"

text \<open>
  Local directories for the examples: a flat checkpoint of two files, and a checkpoint
  whose two files sit in a subdirectory.
\<close>

definition flat_files :: "(string \<times> string) list" where
  "flat_files = [(''config.json'', ''{}''), (''weights.bin'', ''01234'')]"

definition flat_env :: env where
  "flat_env =
     \<lparr>local_fs = (\<lambda>p. if p = ''run/checkpoint-10''
                         then Some (Dir (map (\<lambda>(n, b). (n, File b)) flat_files)) else None),
      s3_response = (\<lambda>b. \<lparr>Contents = None\<rparr>),
      gcs_blobs = (\<lambda>b. []),
      raises = (\<lambda>c. False),
      strftime_s = utc_strftime_s\<rparr>"

definition nested_dir :: node where
  "nested_dir = Dir [(''sub'', Dir [(''a.bin'', File ''A''), (''b.bin'', File ''B'')])]"

definition nested_env :: env where
  "nested_env =
     \<lparr>local_fs = (\<lambda>p. if p = ''run/checkpoint-10'' then Some nested_dir else None),
      s3_response = (\<lambda>b. \<lparr>Contents = None\<rparr>),
      gcs_blobs = (\<lambda>b. []),
      raises = (\<lambda>c. False),
      strftime_s = utc_strftime_s\<rparr>"

text \<open>The flat checkpoint again, with a backend that refuses \<^verbatim>\<open>weights.bin\<close>.\<close>

definition refusing_env :: env where
  "refusing_env =
     flat_env\<lparr>raises := (\<lambda>c. c = S3_upload_file ''run/checkpoint-10/weights.bin'' ''my-bucket''
                                   ''run/checkpoint-10/weights.bin''
                            \<or> c = GCS_upload_from_filename ''my-gcs'' ''run/checkpoint-10/weights.bin''
                                   ''run/checkpoint-10/weights.bin'')\<rparr>"

text \<open>
  Remote locations for the examples.  The first holds the files of \<^verbatim>\<open>checkpoint-50\<close>
  (older) and of \<^verbatim>\<open>checkpoint-100\<close> (newer), listed by key as the stores list them;
  the second holds one object whose key has no directory part; the third holds nothing.
\<close>

definition two_checkpoints_env :: env where
  "two_checkpoints_env =
     \<lparr>local_fs = (\<lambda>p. None),
      s3_response = (\<lambda>b. \<lparr>Contents = Some
         [\<lparr>Key = ''run/checkpoint-100/config.json'', LastModified = 50000000\<rparr>,
          \<lparr>Key = ''run/checkpoint-100/weights.bin'', LastModified = 51000000\<rparr>,
          \<lparr>Key = ''run/checkpoint-50/config.json'', LastModified = 20000000\<rparr>,
          \<lparr>Key = ''run/checkpoint-50/weights.bin'', LastModified = 21000000\<rparr>]\<rparr>),
      gcs_blobs = (\<lambda>b.
         [\<lparr>name = ''run/checkpoint-100/config.json'', time_created = 50000000\<rparr>,
          \<lparr>name = ''run/checkpoint-100/weights.bin'', time_created = 51000000\<rparr>,
          \<lparr>name = ''run/checkpoint-50/config.json'', time_created = 20000000\<rparr>,
          \<lparr>name = ''run/checkpoint-50/weights.bin'', time_created = 21000000\<rparr>]),
      raises = (\<lambda>c. False),
      strftime_s = utc_strftime_s\<rparr>"

definition flat_key_env :: env where
  "flat_key_env =
     \<lparr>local_fs = (\<lambda>p. None),
      s3_response = (\<lambda>b. \<lparr>Contents = Some [\<lparr>Key = ''weights.bin'', LastModified = 5000000\<rparr>]\<rparr>),
      gcs_blobs = (\<lambda>b. [\<lparr>name = ''weights.bin'', time_created = 5000000\<rparr>]),
      raises = (\<lambda>c. False),
      strftime_s = utc_strftime_s\<rparr>"

definition empty_env :: env where
  "empty_env =
     \<lparr>local_fs = (\<lambda>p. None),
      s3_response = (\<lambda>b. \<lparr>Contents = None\<rparr>),
      gcs_blobs = (\<lambda>b. []),
      raises = (\<lambda>c. False),
      strftime_s = utc_strftime_s\<rparr>"

text \<open>The notebook's own run: the bucket holds the files of one uploaded checkpoint.\<close>

definition notebook_env :: env where
  "notebook_env =
     \<lparr>local_fs = (\<lambda>p. None),
      s3_response = (\<lambda>b. \<lparr>Contents = Some
         [\<lparr>Key = ''trainer-demo-checkpointing/checkpoint-100/config.json'', LastModified = 1700000000000000\<rparr>,
          \<lparr>Key = ''trainer-demo-checkpointing/checkpoint-100/pytorch_model.bin'', LastModified = 1700000002000000\<rparr>]\<rparr>),
      gcs_blobs = (\<lambda>b.
         [\<lparr>name = ''trainer-demo-checkpointing/checkpoint-100/config.json'', time_created = 1700000000000000\<rparr>,
          \<lparr>name = ''trainer-demo-checkpointing/checkpoint-100/pytorch_model.bin'', time_created = 1700000002000000\<rparr>]),
      raises = (\<lambda>c. False),
      strftime_s = utc_strftime_s\<rparr>"

text \<open>
  Two blobs created on 26 March 2023, at 02:30 and at 03:10 UTC, listed on the platform in
  the time zone of Paris.
\<close>

definition dst_env :: env where
  "dst_env =
     \<lparr>local_fs = (\<lambda>p. None),
      s3_response = (\<lambda>b. \<lparr>Contents = None\<rparr>),
      gcs_blobs = (\<lambda>b.
         [\<lparr>name = ''run/checkpoint-100/weights.bin'', time_created = 1679797800000000\<rparr>,
          \<lparr>name = ''run/checkpoint-200/weights.bin'', time_created = 1679800200000000\<rparr>]),
      raises = (\<lambda>c. False),
      strftime_s = paris_strftime_s\<rparr>"



section \<open>Basic facts\<close>

lemma calls_issue [simp]: "calls (issue c w) = calls w @ [c]"
  by (simp add: issue_def)

lemma uploaded_issue [simp]: "uploaded (issue c w) = uploaded w"
  by (simp add: issue_def)

lemma uploads_of_append [simp]: "uploads_of (xs @ ys) = uploads_of xs @ uploads_of ys"
  by (induction xs rule: uploads_of.induct) simp_all

lemma objects_of_append [simp]: "objects_of (xs @ ys) = objects_of xs @ objects_of ys"
  by (simp add: objects_of_def)


lemma py_split_not_Nil [simp]: "py_split sep s \<noteq> []"
  by (induction s) (auto split: list.splits)


lemma py_join_py_split: "py_join [sep] (py_split sep s) = s"
proof (induction s)
  case Nil
  then show ?case by simp
next
  case (Cons c s)
  obtain w ws where sp: "py_split sep s = w # ws"
    by (cases "py_split sep s") simp_all
  show ?case
    using Cons.IH by (cases ws) (simp_all add: sp)
qed

section \<open>The constructor\<close>

text \<open>
  C6.  For every \<open>bucket_type\<close> string other than \<open>s3\<close> and \<open>gcs\<close>, constructing the
  loader raises (the assertion fails: this is the invalid-backend error), and no call
  has been issued when it does: the world is unchanged, and so are its network calls.
\<close>

theorem C6_invalid_backend_rejected:
  "bt \<notin> {''s3'', ''gcs''} \<Longrightarrow>
     CloudCheckpointLoader_init bt w =
       (Inl (AssertionError ''Invalid bucket type. Please choose either s3 or gcs''), w)
     \<and> filter is_network (calls (snd (CloudCheckpointLoader_init bt w))) =
         filter is_network (calls w)"
  by (simp add: CloudCheckpointLoader_init_def)

theorem C6_invalid_backend_rejected_witness:
  "''azure'' \<notin> {''s3'', ''gcs''} \<and>
   CloudCheckpointLoader_init ''azure'' \<lparr>calls = [], uploaded = [],
       local_dirs = [], local_files = []\<rparr> =
     (Inl (AssertionError ''Invalid bucket type. Please choose either s3 or gcs''),
      \<lparr>calls = [], uploaded = [],
       local_dirs = [], local_files = []\<rparr>)"
  using C6_invalid_backend_rejected [of "''azure''" "\<lparr>calls = [], uploaded = [],
       local_dirs = [], local_files = []\<rparr>"] by simp

section \<open>The publishers\<close>

lemma s3_upload_loop_append:
  "s3_upload_loop g e mc (xs @ ys) w =
     (case s3_upload_loop g e mc xs w of
        (Inl err, w') \<Rightarrow> (Inl err, w')
      | (Inr u, w') \<Rightarrow> s3_upload_loop g e mc ys w')"
  by (induction xs arbitrary: w) (auto simp: Let_def split: prod.splits sum.splits)

lemma gcs_upload_loop_append:
  "gcs_upload_loop e bk mc (xs @ ys) w =
     (case gcs_upload_loop e bk mc xs w of
        (Inl err, w') \<Rightarrow> (Inl err, w')
      | (Inr u, w') \<Rightarrow> gcs_upload_loop e bk mc ys w')"
  by (induction xs arbitrary: w) (auto simp: Let_def split: prod.splits sum.splits)

lemma s3_upload_loop_files:
  "\<forall>(n, b) \<in> set fl. \<not> raises e (S3_upload_file (mc @ ''/'' @ n) (s3_bucket_name g) (mc @ ''/'' @ n)) \<Longrightarrow>
   s3_upload_loop g e mc (map (\<lambda>(n, b). (n, File b)) fl) w =
     (Inr (),
      w\<lparr>calls := calls w @ map (\<lambda>(n, b). S3_upload_file (mc @ ''/'' @ n) (s3_bucket_name g) (mc @ ''/'' @ n)) fl,
        uploaded := uploaded w @ map (\<lambda>(n, b). (S3, s3_bucket_name g, mc @ ''/'' @ n, b)) fl\<rparr>)"
proof (induction fl arbitrary: w)
  case Nil
  then show ?case by simp
next
  case (Cons a fl)
  obtain n b where a: "a = (n, b)" by (cases a)
  from Cons.prems a
  have ok: "\<not> raises e (S3_upload_file (mc @ ''/'' @ n) (s3_bucket_name g) (mc @ ''/'' @ n))"
    and rest: "\<forall>(n, b) \<in> set fl. \<not> raises e (S3_upload_file (mc @ ''/'' @ n) (s3_bucket_name g) (mc @ ''/'' @ n))"
    by auto
  show ?case
    using ok Cons.IH [OF rest] by (simp add: a s3_upload_file_def issue_def Let_def)
qed

lemma gcs_upload_loop_files:
  "\<forall>(n, b) \<in> set fl. \<not> raises e (GCS_upload_from_filename bk (mc @ ''/'' @ n) (mc @ ''/'' @ n)) \<Longrightarrow>
   gcs_upload_loop e bk mc (map (\<lambda>(n, b). (n, File b)) fl) w =
     (Inr (),
      w\<lparr>calls := calls w @ map (\<lambda>(n, b). GCS_upload_from_filename bk (mc @ ''/'' @ n) (mc @ ''/'' @ n)) fl,
        uploaded := uploaded w @ map (\<lambda>(n, b). (GCS, bk, mc @ ''/'' @ n, b)) fl\<rparr>)"
proof (induction fl arbitrary: w)
  case Nil
  then show ?case by simp
next
  case (Cons a fl)
  obtain n b where a: "a = (n, b)" by (cases a)
  from Cons.prems a
  have ok: "\<not> raises e (GCS_upload_from_filename bk (mc @ ''/'' @ n) (mc @ ''/'' @ n))"
    and rest: "\<forall>(n, b) \<in> set fl. \<not> raises e (GCS_upload_from_filename bk (mc @ ''/'' @ n) (mc @ ''/'' @ n))"
    by auto
  show ?case
    using ok Cons.IH [OF rest] by (simp add: a gcs_upload_from_filename_def issue_def Let_def)
qed

lemma files_under_flat:
  "files_under mc (Dir (map (\<lambda>(n, b). (n, File b)) fl)) = map (\<lambda>(n, b). mc @ ''/'' @ n) fl"
  by (induction fl) auto

lemma uploads_of_s3_calls:
  "uploads_of (map (\<lambda>(n, b). S3_upload_file (p n) bk (q n)) fl) = map (\<lambda>(n, b). (p n, q n)) fl"
  by (induction fl) auto

lemma uploads_of_gcs_calls:
  "uploads_of (map (\<lambda>(n, b). GCS_upload_from_filename bk (q n) (p n)) fl) = map (\<lambda>(n, b). (p n, q n)) fl"
  by (induction fl) auto

text \<open>
  C2 (as the code has it).  The callbacks list the checkpoint directory with
  \<^verbatim>\<open>os.listdir\<close>, which does not descend into subdirectories.  For a checkpoint
  directory whose entries are \<open>N\<close> regular files, and backends that accept every
  upload, each callback succeeds and issues exactly \<open>N\<close> upload calls, one per file in
  the order of the listing, each with the remote key equal to the local path
  \<^verbatim>\<open>training_name/checkpoint-step/filename\<close>; the objects written are these files.
  These \<open>N\<close> paths are all the regular files of the directory.
\<close>

theorem C2_flat_directory_uploads:
  assumes mc: "mc = model_checkpoint_path g state"
    and dir: "local_fs e mc = Some (Dir (map (\<lambda>(n, b). (n, File b)) fl))"
    and s3_ok: "\<forall>(n, b) \<in> set fl.
                  \<not> raises e (S3_upload_file (mc @ ''/'' @ n) (s3_bucket_name g) (mc @ ''/'' @ n))"
    and bucket_ok: "\<not> raises e (GCS_get_bucket (gcs_bucket_name g))"
    and gcs_ok: "\<forall>(n, b) \<in> set fl.
                  \<not> raises e (GCS_upload_from_filename (gcs_bucket_name g) (mc @ ''/'' @ n) (mc @ ''/'' @ n))"
  shows "S3_on_save g e state w =
           (Inr (),
            w\<lparr>calls := calls w @
                 map (\<lambda>(n, b). S3_upload_file (mc @ ''/'' @ n) (s3_bucket_name g) (mc @ ''/'' @ n)) fl,
              uploaded := uploaded w @
                 map (\<lambda>(n, b). (S3, s3_bucket_name g, mc @ ''/'' @ n, b)) fl\<rparr>)
       \<and> GCS_on_save g e state w =
           (Inr (),
            w\<lparr>calls := calls w @ GCS_get_bucket (gcs_bucket_name g) #
                 map (\<lambda>(n, b). GCS_upload_from_filename (gcs_bucket_name g) (mc @ ''/'' @ n) (mc @ ''/'' @ n)) fl,
              uploaded := uploaded w @
                 map (\<lambda>(n, b). (GCS, gcs_bucket_name g, mc @ ''/'' @ n, b)) fl\<rparr>)
       \<and> length (uploads_of (calls (snd (S3_on_save g e state w)))) =
           length (uploads_of (calls w)) + length fl
       \<and> length (uploads_of (calls (snd (GCS_on_save g e state w)))) =
           length (uploads_of (calls w)) + length fl
       \<and> files_under mc (Dir (map (\<lambda>(n, b). (n, File b)) fl)) = map (\<lambda>(n, b). mc @ ''/'' @ n) fl"
proof -
  have s3: "S3_on_save g e state w =
           (Inr (),
            w\<lparr>calls := calls w @
                 map (\<lambda>(n, b). S3_upload_file (mc @ ''/'' @ n) (s3_bucket_name g) (mc @ ''/'' @ n)) fl,
              uploaded := uploaded w @
                 map (\<lambda>(n, b). (S3, s3_bucket_name g, mc @ ''/'' @ n, b)) fl\<rparr>)"
    using dir s3_upload_loop_files [OF s3_ok, of w]
    by (simp add: S3_on_save_def os_listdir_def mc [symmetric])
  have gcs: "GCS_on_save g e state w =
           (Inr (),
            w\<lparr>calls := calls w @ GCS_get_bucket (gcs_bucket_name g) #
                 map (\<lambda>(n, b). GCS_upload_from_filename (gcs_bucket_name g) (mc @ ''/'' @ n) (mc @ ''/'' @ n)) fl,
              uploaded := uploaded w @
                 map (\<lambda>(n, b). (GCS, gcs_bucket_name g, mc @ ''/'' @ n, b)) fl\<rparr>)"
    using dir bucket_ok gcs_upload_loop_files [OF gcs_ok, of "issue (GCS_get_bucket (gcs_bucket_name g)) w"]
    by (simp add: GCS_on_save_def gcs_get_bucket_def os_listdir_def mc [symmetric] issue_def)
  have n3: "length (uploads_of (calls (snd (S3_on_save g e state w)))) =
           length (uploads_of (calls w)) + length fl"
    by (simp add: s3 uploads_of_s3_calls)
  have ng: "length (uploads_of (calls (snd (GCS_on_save g e state w)))) =
           length (uploads_of (calls w)) + length fl"
    by (simp add: gcs uploads_of_gcs_calls)
  show ?thesis
    using s3 gcs n3 ng files_under_flat by blast
qed

theorem C2_flat_directory_uploads_witness:
  "S3_on_save run_globals flat_env \<lparr>global_step = 10\<rparr> world0 =
     (Inr (),
      \<lparr>calls = [S3_upload_file ''run/checkpoint-10/config.json'' ''my-bucket'' ''run/checkpoint-10/config.json'',
                S3_upload_file ''run/checkpoint-10/weights.bin'' ''my-bucket'' ''run/checkpoint-10/weights.bin''],
       uploaded = [(S3, ''my-bucket'', ''run/checkpoint-10/config.json'', ''{}''),
                   (S3, ''my-bucket'', ''run/checkpoint-10/weights.bin'', ''01234'')],
       local_dirs = [], local_files = []\<rparr>)
   \<and> GCS_on_save run_globals flat_env \<lparr>global_step = 10\<rparr> world0 =
     (Inr (),
      \<lparr>calls = [GCS_get_bucket ''my-gcs'',
                GCS_upload_from_filename ''my-gcs'' ''run/checkpoint-10/config.json'' ''run/checkpoint-10/config.json'',
                GCS_upload_from_filename ''my-gcs'' ''run/checkpoint-10/weights.bin'' ''run/checkpoint-10/weights.bin''],
       uploaded = [(GCS, ''my-gcs'', ''run/checkpoint-10/config.json'', ''{}''),
                   (GCS, ''my-gcs'', ''run/checkpoint-10/weights.bin'', ''01234'')],
       local_dirs = [], local_files = []\<rparr>)"
proof -
  have mc: "''run/checkpoint-10'' = model_checkpoint_path run_globals \<lparr>global_step = 10\<rparr>"
    by (simp add: model_checkpoint_path_def run_globals_def str_int_def str_nat.simps digit_char_def)
  have dir: "local_fs flat_env ''run/checkpoint-10'' = Some (Dir (map (\<lambda>(n, b). (n, File b)) flat_files))"
    by (simp add: flat_env_def)
  show ?thesis
    using C2_flat_directory_uploads [OF mc dir, where w = world0]
    by (simp add: flat_env_def flat_files_def run_globals_def world0_def)
qed

text \<open>
  The claim as the specification words it fails on a checkpoint with a subdirectory: the
  directory below holds two regular files, both nested, yet one upload call is issued,
  for the subdirectory itself, and it raises.
\<close>

theorem C2_nested_files_counterexample:
  "files_under ''run/checkpoint-10'' nested_dir =
     [''run/checkpoint-10/sub/a.bin'', ''run/checkpoint-10/sub/b.bin'']
   \<and> S3_on_save run_globals nested_env \<lparr>global_step = 10\<rparr> world0 =
       (Inl (IsADirectoryError ''run/checkpoint-10/sub''),
        \<lparr>calls = [S3_upload_file ''run/checkpoint-10/sub'' ''my-bucket'' ''run/checkpoint-10/sub''],
         uploaded = [],
       local_dirs = [], local_files = []\<rparr>)
   \<and> length (uploads_of (calls (snd (S3_on_save run_globals nested_env \<lparr>global_step = 10\<rparr> world0))))
       \<noteq> length (files_under ''run/checkpoint-10'' nested_dir)"
  by (simp add: nested_dir_def nested_env_def S3_on_save_def os_listdir_def model_checkpoint_path_def
      run_globals_def str_int_def str_nat.simps digit_char_def s3_upload_file_def issue_def world0_def
      Let_def)


subsection \<open>A failing upload\<close>

lemma s3_upload_loop_fail:
  assumes "(\<exists>es. nd = Dir es) \<or> raises e (S3_upload_file (mc @ ''/'' @ n) (s3_bucket_name g) (mc @ ''/'' @ n))"
  shows "s3_upload_loop g e mc ((n, nd) # rest) w =
           (Inl (case nd of Dir _ \<Rightarrow> IsADirectoryError (mc @ ''/'' @ n)
                          | File _ \<Rightarrow> S3UploadFailedError (mc @ ''/'' @ n)),
            w\<lparr>calls := calls w @ [S3_upload_file (mc @ ''/'' @ n) (s3_bucket_name g) (mc @ ''/'' @ n)]\<rparr>)"
  using assms by (cases nd) (auto simp: s3_upload_file_def issue_def Let_def)

lemma gcs_upload_loop_fail:
  assumes "(\<exists>es. nd = Dir es) \<or> raises e (GCS_upload_from_filename bk (mc @ ''/'' @ n) (mc @ ''/'' @ n))"
  shows "gcs_upload_loop e bk mc ((n, nd) # rest) w =
           (Inl (case nd of Dir _ \<Rightarrow> IsADirectoryError (mc @ ''/'' @ n)
                          | File _ \<Rightarrow> GoogleCloudError (mc @ ''/'' @ n)),
            w\<lparr>calls := calls w @ [GCS_upload_from_filename bk (mc @ ''/'' @ n) (mc @ ''/'' @ n)]\<rparr>)"
  using assms by (cases nd) (auto simp: gcs_upload_from_filename_def issue_def Let_def)

lemma S3_on_save_fail:
  assumes mc: "mc = model_checkpoint_path g state"
    and dir: "local_fs e mc = Some (Dir (map (\<lambda>(m, b). (m, File b)) fl @ (n, nd) # rest))"
    and ok: "\<forall>(m, b) \<in> set fl.
               \<not> raises e (S3_upload_file (mc @ ''/'' @ m) (s3_bucket_name g) (mc @ ''/'' @ m))"
    and bad: "(\<exists>es. nd = Dir es) \<or>
              raises e (S3_upload_file (mc @ ''/'' @ n) (s3_bucket_name g) (mc @ ''/'' @ n))"
  shows "S3_on_save g e state w =
           (Inl (case nd of Dir _ \<Rightarrow> IsADirectoryError (mc @ ''/'' @ n)
                          | File _ \<Rightarrow> S3UploadFailedError (mc @ ''/'' @ n)),
            w\<lparr>calls := calls w @
                 map (\<lambda>(m, b). S3_upload_file (mc @ ''/'' @ m) (s3_bucket_name g) (mc @ ''/'' @ m)) fl @
                 [S3_upload_file (mc @ ''/'' @ n) (s3_bucket_name g) (mc @ ''/'' @ n)],
              uploaded := uploaded w @
                 map (\<lambda>(m, b). (S3, s3_bucket_name g, mc @ ''/'' @ m, b)) fl\<rparr>)"
proof -
  have "S3_on_save g e state w =
          s3_upload_loop g e mc (map (\<lambda>(m, b). (m, File b)) fl @ (n, nd) # rest) w"
    using dir by (simp add: S3_on_save_def os_listdir_def mc [symmetric])
  then show ?thesis
    by (simp add: s3_upload_loop_append s3_upload_loop_files [OF ok] s3_upload_loop_fail [OF bad]
        del: s3_upload_loop.simps)
qed

lemma GCS_on_save_fail:
  assumes mc: "mc = model_checkpoint_path g state"
    and dir: "local_fs e mc = Some (Dir (map (\<lambda>(m, b). (m, File b)) fl @ (n, nd) # rest))"
    and bucket_ok: "\<not> raises e (GCS_get_bucket (gcs_bucket_name g))"
    and ok: "\<forall>(m, b) \<in> set fl.
               \<not> raises e (GCS_upload_from_filename (gcs_bucket_name g) (mc @ ''/'' @ m) (mc @ ''/'' @ m))"
    and bad: "(\<exists>es. nd = Dir es) \<or>
              raises e (GCS_upload_from_filename (gcs_bucket_name g) (mc @ ''/'' @ n) (mc @ ''/'' @ n))"
  shows "GCS_on_save g e state w =
           (Inl (case nd of Dir _ \<Rightarrow> IsADirectoryError (mc @ ''/'' @ n)
                          | File _ \<Rightarrow> GoogleCloudError (mc @ ''/'' @ n)),
            w\<lparr>calls := calls w @ GCS_get_bucket (gcs_bucket_name g) #
                 map (\<lambda>(m, b). GCS_upload_from_filename (gcs_bucket_name g) (mc @ ''/'' @ m) (mc @ ''/'' @ m)) fl @
                 [GCS_upload_from_filename (gcs_bucket_name g) (mc @ ''/'' @ n) (mc @ ''/'' @ n)],
              uploaded := uploaded w @
                 map (\<lambda>(m, b). (GCS, gcs_bucket_name g, mc @ ''/'' @ m, b)) fl\<rparr>)"
proof -
  have "GCS_on_save g e state w =
          gcs_upload_loop e (gcs_bucket_name g) mc (map (\<lambda>(m, b). (m, File b)) fl @ (n, nd) # rest)
            (issue (GCS_get_bucket (gcs_bucket_name g)) w)"
    using dir bucket_ok by (simp add: GCS_on_save_def gcs_get_bucket_def os_listdir_def mc [symmetric])
  then show ?thesis
    by (simp add: gcs_upload_loop_append gcs_upload_loop_files [OF ok] gcs_upload_loop_fail [OF bad]
        issue_def del: gcs_upload_loop.simps)
qed

text \<open>
  C7.  Let the upload of some file of the checkpoint directory fail: the files listed
  before it are uploaded, and this one is refused by the backend (or cannot be read as
  a file).  Then the callback raises the error of that upload at once, the entries after
  it are never tried, and the objects written before the failure stay written: the world
  holds them, and no call follows the failed one.  The same holds for both backends.
\<close>

theorem C7_failed_upload_surfaces:
  assumes mc: "mc = model_checkpoint_path g state"
    and dir: "local_fs e mc = Some (Dir (map (\<lambda>(m, b). (m, File b)) fl @ (n, nd) # rest))"
  shows "((\<forall>(m, b) \<in> set fl.
              \<not> raises e (S3_upload_file (mc @ ''/'' @ m) (s3_bucket_name g) (mc @ ''/'' @ m)))
          \<and> ((\<exists>es. nd = Dir es) \<or>
               raises e (S3_upload_file (mc @ ''/'' @ n) (s3_bucket_name g) (mc @ ''/'' @ n)))
          \<longrightarrow> S3_on_save g e state w =
                (Inl (case nd of Dir _ \<Rightarrow> IsADirectoryError (mc @ ''/'' @ n)
                               | File _ \<Rightarrow> S3UploadFailedError (mc @ ''/'' @ n)),
                 w\<lparr>calls := calls w @
                      map (\<lambda>(m, b). S3_upload_file (mc @ ''/'' @ m) (s3_bucket_name g) (mc @ ''/'' @ m)) fl @
                      [S3_upload_file (mc @ ''/'' @ n) (s3_bucket_name g) (mc @ ''/'' @ n)],
                   uploaded := uploaded w @
                      map (\<lambda>(m, b). (S3, s3_bucket_name g, mc @ ''/'' @ m, b)) fl\<rparr>))
       \<and> (\<not> raises e (GCS_get_bucket (gcs_bucket_name g))
          \<and> (\<forall>(m, b) \<in> set fl.
              \<not> raises e (GCS_upload_from_filename (gcs_bucket_name g) (mc @ ''/'' @ m) (mc @ ''/'' @ m)))
          \<and> ((\<exists>es. nd = Dir es) \<or>
               raises e (GCS_upload_from_filename (gcs_bucket_name g) (mc @ ''/'' @ n) (mc @ ''/'' @ n)))
          \<longrightarrow> GCS_on_save g e state w =
                (Inl (case nd of Dir _ \<Rightarrow> IsADirectoryError (mc @ ''/'' @ n)
                               | File _ \<Rightarrow> GoogleCloudError (mc @ ''/'' @ n)),
                 w\<lparr>calls := calls w @ GCS_get_bucket (gcs_bucket_name g) #
                      map (\<lambda>(m, b). GCS_upload_from_filename (gcs_bucket_name g) (mc @ ''/'' @ m) (mc @ ''/'' @ m)) fl @
                      [GCS_upload_from_filename (gcs_bucket_name g) (mc @ ''/'' @ n) (mc @ ''/'' @ n)],
                   uploaded := uploaded w @
                      map (\<lambda>(m, b). (GCS, gcs_bucket_name g, mc @ ''/'' @ m, b)) fl\<rparr>))"
  using S3_on_save_fail [OF mc dir] GCS_on_save_fail [OF mc dir] by blast

theorem C7_failed_upload_surfaces_witness:
  "S3_on_save run_globals refusing_env \<lparr>global_step = 10\<rparr> world0 =
     (Inl (S3UploadFailedError ''run/checkpoint-10/weights.bin''),
      \<lparr>calls = [S3_upload_file ''run/checkpoint-10/config.json'' ''my-bucket'' ''run/checkpoint-10/config.json'',
                S3_upload_file ''run/checkpoint-10/weights.bin'' ''my-bucket'' ''run/checkpoint-10/weights.bin''],
       uploaded = [(S3, ''my-bucket'', ''run/checkpoint-10/config.json'', ''{}'')],
       local_dirs = [], local_files = []\<rparr>)
   \<and> GCS_on_save run_globals refusing_env \<lparr>global_step = 10\<rparr> world0 =
     (Inl (GoogleCloudError ''run/checkpoint-10/weights.bin''),
      \<lparr>calls = [GCS_get_bucket ''my-gcs'',
                GCS_upload_from_filename ''my-gcs'' ''run/checkpoint-10/config.json'' ''run/checkpoint-10/config.json'',
                GCS_upload_from_filename ''my-gcs'' ''run/checkpoint-10/weights.bin'' ''run/checkpoint-10/weights.bin''],
       uploaded = [(GCS, ''my-gcs'', ''run/checkpoint-10/config.json'', ''{}'')],
       local_dirs = [], local_files = []\<rparr>)"
proof -
  have mc: "''run/checkpoint-10'' = model_checkpoint_path run_globals \<lparr>global_step = 10\<rparr>"
    by (simp add: model_checkpoint_path_def run_globals_def str_int_def str_nat.simps digit_char_def)
  have dir: "local_fs refusing_env ''run/checkpoint-10'' =
      Some (Dir (map (\<lambda>(m, b). (m, File b)) [(''config.json'', ''{}'')] @ (''weights.bin'', File ''01234'') # []))"
    by (simp add: refusing_env_def flat_env_def flat_files_def)
  show ?thesis
    using C7_failed_upload_surfaces [OF mc dir, where w = world0]
    by (simp add: refusing_env_def flat_env_def run_globals_def world0_def)
qed

subsection \<open>The two publishers side by side\<close>

lemma upload_loops_agree:
  assumes same: "\<forall>f k. raises e (GCS_upload_from_filename gb k f) =
                        raises e (S3_upload_file f (s3_bucket_name g) k)"
    and "uploads_of (calls w1) = uploads_of (calls w2)"
    and "objects_of (uploaded w1) = objects_of (uploaded w2)"
  shows "isl (fst (s3_upload_loop g e mc es w1)) = isl (fst (gcs_upload_loop e gb mc es w2))
       \<and> uploads_of (calls (snd (s3_upload_loop g e mc es w1))) =
           uploads_of (calls (snd (gcs_upload_loop e gb mc es w2)))
       \<and> objects_of (uploaded (snd (s3_upload_loop g e mc es w1))) =
           objects_of (uploaded (snd (gcs_upload_loop e gb mc es w2)))"
  using assms(2,3)
proof (induction es arbitrary: w1 w2)
  case Nil
  then show ?case by simp
next
  case (Cons a es)
  obtain n nd where a: "a = (n, nd)" by (cases a)
  let ?p = "mc @ ''/'' @ n"
  show ?case
  proof (cases nd)
    case (Dir x)
    then show ?thesis
      using Cons.prems
      by (simp add: a s3_upload_file_def gcs_upload_from_filename_def Let_def)
  next
    case (File b)
    show ?thesis
    proof (cases "raises e (S3_upload_file ?p (s3_bucket_name g) ?p)")
      case True
      then have "raises e (GCS_upload_from_filename gb ?p ?p)"
        using same by simp
      with True show ?thesis
        using Cons.prems
        by (simp add: a File s3_upload_file_def gcs_upload_from_filename_def Let_def)
    next
      case False
      then have ng: "\<not> raises e (GCS_upload_from_filename gb ?p ?p)"
        using same by simp
      let ?w1 = "(issue (S3_upload_file ?p (s3_bucket_name g) ?p) w1)
                   \<lparr>uploaded := uploaded w1 @ [(S3, s3_bucket_name g, ?p, b)]\<rparr>"
      let ?w2 = "(issue (GCS_upload_from_filename gb ?p ?p) w2)
                   \<lparr>uploaded := uploaded w2 @ [(GCS, gb, ?p, b)]\<rparr>"
      have c: "uploads_of (calls ?w1) = uploads_of (calls ?w2)"
        using Cons.prems by (simp add: issue_def)
      have u: "objects_of (uploaded ?w1) = objects_of (uploaded ?w2)"
        using Cons.prems by (simp add: objects_of_def)
      have s1: "s3_upload_loop g e mc (a # es) w1 = s3_upload_loop g e mc es ?w1"
        using False by (simp add: a File s3_upload_file_def Let_def)
      have s2: "gcs_upload_loop e gb mc (a # es) w2 = gcs_upload_loop e gb mc es ?w2"
        using ng by (simp add: a File gcs_upload_from_filename_def Let_def)
      show ?thesis
        unfolding s1 s2 by (rule Cons.IH [OF c u])
    qed
  qed
qed

text \<open>
  C8.  For every training name, step and local directory tree, when the bucket of the
  GCS publisher is found and the two backends accept and refuse the same transfers, the
  S3 callback and the GCS callback succeed or fail together, issue upload calls for the
  same local files under the same remote keys in the same order, and leave the same
  objects (key and bytes) written.  They differ in the calls of the client only.
\<close>

theorem C8_publishers_equivalent:
  assumes bucket_ok: "\<not> raises e (GCS_get_bucket (gcs_bucket_name g))"
    and same: "\<forall>f k. raises e (GCS_upload_from_filename (gcs_bucket_name g) k f) =
                      raises e (S3_upload_file f (s3_bucket_name g) k)"
  shows "isl (fst (S3_on_save g e state w)) = isl (fst (GCS_on_save g e state w))
       \<and> uploads_of (calls (snd (S3_on_save g e state w))) =
           uploads_of (calls (snd (GCS_on_save g e state w)))
       \<and> objects_of (uploaded (snd (S3_on_save g e state w))) =
           objects_of (uploaded (snd (GCS_on_save g e state w)))"
proof (cases "os_listdir e (model_checkpoint_path g state)")
  case (Inl err)
  then show ?thesis
    using bucket_ok by (simp add: S3_on_save_def GCS_on_save_def gcs_get_bucket_def)
next
  case (Inr entries)
  have c: "uploads_of (calls w) = uploads_of (calls (issue (GCS_get_bucket (gcs_bucket_name g)) w))"
    by simp
  have u: "objects_of (uploaded w) = objects_of (uploaded (issue (GCS_get_bucket (gcs_bucket_name g)) w))"
    by simp
  show ?thesis
    using bucket_ok Inr upload_loops_agree [OF same c u, of "model_checkpoint_path g state" entries]
    by (simp add: S3_on_save_def GCS_on_save_def gcs_get_bucket_def)
qed

theorem C8_publishers_equivalent_witness:
  "uploads_of (calls (snd (S3_on_save run_globals flat_env \<lparr>global_step = 10\<rparr> world0))) =
     [(''run/checkpoint-10/config.json'', ''run/checkpoint-10/config.json''),
      (''run/checkpoint-10/weights.bin'', ''run/checkpoint-10/weights.bin'')]
   \<and> uploads_of (calls (snd (GCS_on_save run_globals flat_env \<lparr>global_step = 10\<rparr> world0))) =
     [(''run/checkpoint-10/config.json'', ''run/checkpoint-10/config.json''),
      (''run/checkpoint-10/weights.bin'', ''run/checkpoint-10/weights.bin'')]
   \<and> isl (fst (S3_on_save run_globals flat_env \<lparr>global_step = 10\<rparr> world0)) =
       isl (fst (GCS_on_save run_globals flat_env \<lparr>global_step = 10\<rparr> world0))
   \<and> objects_of (uploaded (snd (S3_on_save run_globals flat_env \<lparr>global_step = 10\<rparr> world0))) =
       objects_of (uploaded (snd (GCS_on_save run_globals flat_env \<lparr>global_step = 10\<rparr> world0)))"
proof -
  have bucket_ok: "\<not> raises flat_env (GCS_get_bucket (gcs_bucket_name run_globals))"
    by (simp add: flat_env_def)
  have same: "\<forall>f k. raises flat_env (GCS_upload_from_filename (gcs_bucket_name run_globals) k f) =
                     raises flat_env (S3_upload_file f (s3_bucket_name run_globals) k)"
    by (simp add: flat_env_def)
  have s3: "uploads_of (calls (snd (S3_on_save run_globals flat_env \<lparr>global_step = 10\<rparr> world0))) =
     [(''run/checkpoint-10/config.json'', ''run/checkpoint-10/config.json''),
      (''run/checkpoint-10/weights.bin'', ''run/checkpoint-10/weights.bin'')]"
    by (simp add: S3_on_save_def os_listdir_def model_checkpoint_path_def run_globals_def flat_env_def
        flat_files_def str_int_def str_nat.simps digit_char_def s3_upload_file_def issue_def world0_def
        Let_def)
  show ?thesis
    using C8_publishers_equivalent [OF bucket_ok same, of "\<lparr>global_step = 10\<rparr>" world0] s3
    by simp
qed


section \<open>The loader: selection of the latest checkpoint\<close>

lemma sorted_le_last: "sorted ys \<Longrightarrow> y \<in> set ys \<Longrightarrow> y \<le> last ys"
  by (induction ys) auto

lemma last_sort_key_in: "xs \<noteq> [] \<Longrightarrow> last (sort_key f xs) \<in> set xs"
proof -
  assume "xs \<noteq> []"
  then have "sort_key f xs \<noteq> []"
    by (metis length_0_conv length_sort)
  then have "last (sort_key f xs) \<in> set (sort_key f xs)"
    by (rule last_in_set)
  then show ?thesis by simp
qed

lemma last_sort_key_greatest:
  assumes "x \<in> set xs"
  shows "f x \<le> f (last (sort_key f xs))"
proof -
  from assms have ne: "sort_key f xs \<noteq> []"
    by (metis empty_iff empty_set set_sort)
  have "sorted (map f (sort_key f xs))"
    by (rule sorted_sort_key)
  moreover have "f x \<in> set (map f (sort_key f xs))"
    using assms by simp
  ultimately have "f x \<le> last (map f (sort_key f xs))"
    by (rule sorted_le_last)
  then show ?thesis
    using ne by (simp add: last_map)
qed

text \<open>
  Where the sort key grows strictly with the time stamp, the last object of the sorted
  listing has the greatest time stamp.
\<close>

lemma last_sort_key_latest:
  fixes ts :: "'a \<Rightarrow> int" and conv :: "int \<Rightarrow> int"
  assumes mono: "\<forall>a \<in> set xs. \<forall>b \<in> set xs. ts a < ts b \<longrightarrow> conv (ts a) < conv (ts b)"
    and x: "x \<in> set xs"
  shows "ts x \<le> ts (last (sort_key (\<lambda>y. conv (ts y)) xs))"
proof (rule ccontr)
  let ?l = "last (sort_key (\<lambda>y. conv (ts y)) xs)"
  assume "\<not> ts x \<le> ts ?l"
  then have lt: "ts ?l < ts x" by simp
  from x have "xs \<noteq> []" by auto
  then have "?l \<in> set xs" by (rule last_sort_key_in)
  with mono x lt have "conv (ts ?l) < conv (ts x)" by blast
  moreover have "conv (ts x) \<le> conv (ts ?l)"
    using last_sort_key_greatest [OF x, of "\<lambda>y. conv (ts y)"] .
  ultimately show False by simp
qed

lemma length_py_split: "length (py_split sep s) = Suc (count_list s sep)"
  by (induction s) (auto split: list.splits)

lemma py_split_two_iff: "2 \<le> length (py_split sep s) \<longleftrightarrow> sep \<in> set s"
  using count_list_0_iff [of s sep] by (auto simp: length_py_split)

lemma get_last_checkpoint_from_s3_world:
  "snd (get_last_checkpoint_from_s3 g e self w) =
     issue (S3_list_objects_v2 ''hf-demo-s3-checkpointing-sagemaker'') w"
  by (simp add: get_last_checkpoint_from_s3_def Let_def split: option.splits sum.splits)

lemma get_last_checkpoint_from_gcs_world:
  "snd (get_last_checkpoint_from_gcs g e self bucket w) = issue (GCS_list_blobs bucket) w"
  by (simp add: get_last_checkpoint_from_gcs_def Let_def split: option.splits sum.splits)

lemma get_last_checkpoint_from_s3_result:
  "fst (get_last_checkpoint_from_s3 g e self w) = fst (get_last_checkpoint_from_s3 g e self w')"
  by (simp add: get_last_checkpoint_from_s3_def Let_def split: option.splits sum.splits)

lemma get_last_checkpoint_from_gcs_result:
  "fst (get_last_checkpoint_from_gcs g e self bucket w) =
   fst (get_last_checkpoint_from_gcs g e self bucket w')"
  by (simp add: get_last_checkpoint_from_gcs_def Let_def split: option.splits sum.splits)

lemma get_last_checkpoint_from_s3_select:
  assumes "\<not> raises e (S3_list_objects_v2 ''hf-demo-s3-checkpointing-sagemaker'')"
    and "Contents (s3_response e ''hf-demo-s3-checkpointing-sagemaker'') = Some objs"
    and "objs \<noteq> []"
    and "latest = last (sort_key (\<lambda>ob. strftime_s e (LastModified ob)) objs)"
  shows "fst (get_last_checkpoint_from_s3 g e self w) =
           (if CHR ''/'' \<in> set (Key latest)
            then Inr (py_split CHR ''/'' (Key latest) ! 1,
                      filter (py_in (py_split CHR ''/'' (Key latest) ! 1))
                        (map Key (sort_key (\<lambda>ob. strftime_s e (LastModified ob)) objs)))
            else Inl (IndexError ''list index out of range''))"
proof -
  have ne: "sort_key (\<lambda>ob. strftime_s e (LastModified ob)) objs \<noteq> []"
    using assms(3) by (metis length_0_conv length_sort)
  have two: "length (py_split CHR ''/'' (Key latest)) < 2 \<longleftrightarrow> CHR ''/'' \<notin> set (Key latest)"
    using py_split_two_iff [of "CHR ''/''" "Key latest"] by auto
  show ?thesis
    using assms(1,2) ne two
    by (simp add: get_last_checkpoint_from_s3_def Let_def item_last_def item_1_def last_map
        assms(4) [symmetric])
qed

lemma get_last_checkpoint_from_gcs_select:
  assumes "\<not> raises e (GCS_list_blobs bucket)"
    and "gcs_blobs e bucket = blobs"
    and "blobs \<noteq> []"
    and "newest = last (sort_key (\<lambda>bl. strftime_s e (time_created bl)) blobs)"
  shows "fst (get_last_checkpoint_from_gcs g e self bucket w) =
           (if CHR ''/'' \<in> set (name newest)
            then Inr (py_split CHR ''/'' (name newest) ! 1,
                      filter (py_in (py_split CHR ''/'' (name newest) ! 1))
                        (map name (sort_key (\<lambda>bl. strftime_s e (time_created bl)) blobs)))
            else Inl (IndexError ''list index out of range''))"
proof -
  have ne: "sort_key (\<lambda>bl. strftime_s e (time_created bl)) blobs \<noteq> []"
    using assms(3) by (metis length_0_conv length_sort)
  have two: "length (py_split CHR ''/'' (name newest)) < 2 \<longleftrightarrow> CHR ''/'' \<notin> set (name newest)"
    using py_split_two_iff [of "CHR ''/''" "name newest"] by auto
  show ?thesis
    using assms(1,2) ne two
    by (simp add: get_last_checkpoint_from_gcs_def Let_def item_last_def item_1_def last_map
        assms(4) [symmetric])
qed

text \<open>
  C3 (as the code has it).  Take a non-empty listing on which the sort key
  \<^verbatim>\<open>int(t.strftime('%s'))\<close> grows strictly with the time stamp, and let the most recent
  object be the last one of the listing sorted by that key with a stable sort.  It is an
  object of the listing and no object has a greater time stamp.  When its key contains
  a \<open>/\<close>, the selection succeeds and the checkpoint directory is the second component
  of that key split at \<open>/\<close>; when it contains none, the selection raises
  \<^verbatim>\<open>IndexError\<close>.  This holds for the S3 listing and for the GCS listing.  Nothing is
  said of a listing on which the sort key does not follow the time stamps.
\<close>

theorem C3_latest_checkpoint_dir:
  assumes "latest = last (sort_key (\<lambda>ob. strftime_s e (LastModified ob)) objs)"
    and "newest = last (sort_key (\<lambda>bl. strftime_s e (time_created bl)) blobs)"
  shows "(\<not> raises e (S3_list_objects_v2 ''hf-demo-s3-checkpointing-sagemaker'')
          \<and> Contents (s3_response e ''hf-demo-s3-checkpointing-sagemaker'') = Some objs
          \<and> objs \<noteq> []
          \<and> (\<forall>a \<in> set objs. \<forall>b \<in> set objs. LastModified a < LastModified b
                \<longrightarrow> strftime_s e (LastModified a) < strftime_s e (LastModified b))
          \<longrightarrow> latest \<in> set objs
              \<and> (\<forall>ob \<in> set objs. LastModified ob \<le> LastModified latest)
              \<and> (CHR ''/'' \<in> set (Key latest)
                  \<longrightarrow> (\<exists>files. fst (get_last_checkpoint_from_s3 g e self w) =
                                  Inr (py_split CHR ''/'' (Key latest) ! 1, files)))
              \<and> (CHR ''/'' \<notin> set (Key latest)
                  \<longrightarrow> fst (get_last_checkpoint_from_s3 g e self w) =
                        Inl (IndexError ''list index out of range'')))
       \<and> (\<not> raises e (GCS_list_blobs bucket)
          \<and> gcs_blobs e bucket = blobs
          \<and> blobs \<noteq> []
          \<and> (\<forall>a \<in> set blobs. \<forall>b \<in> set blobs. time_created a < time_created b
                \<longrightarrow> strftime_s e (time_created a) < strftime_s e (time_created b))
          \<longrightarrow> newest \<in> set blobs
              \<and> (\<forall>bl \<in> set blobs. time_created bl \<le> time_created newest)
              \<and> (CHR ''/'' \<in> set (name newest)
                  \<longrightarrow> (\<exists>files. fst (get_last_checkpoint_from_gcs g e self bucket w) =
                                  Inr (py_split CHR ''/'' (name newest) ! 1, files)))
              \<and> (CHR ''/'' \<notin> set (name newest)
                  \<longrightarrow> fst (get_last_checkpoint_from_gcs g e self bucket w) =
                        Inl (IndexError ''list index out of range'')))"
proof (intro conjI impI)
  assume h: "\<not> raises e (S3_list_objects_v2 ''hf-demo-s3-checkpointing-sagemaker'')
          \<and> Contents (s3_response e ''hf-demo-s3-checkpointing-sagemaker'') = Some objs
          \<and> objs \<noteq> []
          \<and> (\<forall>a \<in> set objs. \<forall>b \<in> set objs. LastModified a < LastModified b
                \<longrightarrow> strftime_s e (LastModified a) < strftime_s e (LastModified b))"
  then have ne: "objs \<noteq> []" by simp
  note sel = get_last_checkpoint_from_s3_select [of e objs latest g self w]
  show "latest \<in> set objs"
    unfolding assms(1) using ne by (rule last_sort_key_in)
  show "\<forall>ob \<in> set objs. LastModified ob \<le> LastModified latest"
    unfolding assms(1) using h last_sort_key_latest [of objs LastModified "strftime_s e"] by blast
  show "\<exists>files. fst (get_last_checkpoint_from_s3 g e self w) =
                  Inr (py_split CHR ''/'' (Key latest) ! 1, files)"
    if "CHR ''/'' \<in> set (Key latest)"
    using that h sel assms(1) by simp
  show "fst (get_last_checkpoint_from_s3 g e self w) = Inl (IndexError ''list index out of range'')"
    if "CHR ''/'' \<notin> set (Key latest)"
    using that h sel assms(1) by simp
next
  assume h: "\<not> raises e (GCS_list_blobs bucket)
          \<and> gcs_blobs e bucket = blobs
          \<and> blobs \<noteq> []
          \<and> (\<forall>a \<in> set blobs. \<forall>b \<in> set blobs. time_created a < time_created b
                \<longrightarrow> strftime_s e (time_created a) < strftime_s e (time_created b))"
  then have ne: "blobs \<noteq> []" by simp
  note sel = get_last_checkpoint_from_gcs_select [of e bucket blobs newest g self w]
  show "newest \<in> set blobs"
    unfolding assms(2) using ne by (rule last_sort_key_in)
  show "\<forall>bl \<in> set blobs. time_created bl \<le> time_created newest"
    unfolding assms(2) using h last_sort_key_latest [of blobs time_created "strftime_s e"] by blast
  show "\<exists>files. fst (get_last_checkpoint_from_gcs g e self bucket w) =
                  Inr (py_split CHR ''/'' (name newest) ! 1, files)"
    if "CHR ''/'' \<in> set (name newest)"
    using that h sel assms(2) by simp
  show "fst (get_last_checkpoint_from_gcs g e self bucket w) = Inl (IndexError ''list index out of range'')"
    if "CHR ''/'' \<notin> set (name newest)"
    using that h sel assms(2) by simp
qed

theorem C3_latest_checkpoint_dir_witness:
  "(\<exists>files. fst (get_last_checkpoint_from_s3 run_globals two_checkpoints_env
                     \<lparr>bucket_type = ''s3''\<rparr> world0) = Inr (''checkpoint-100'', files))
   \<and> (\<exists>files. fst (get_last_checkpoint_from_gcs run_globals two_checkpoints_env
                     \<lparr>bucket_type = ''gcs''\<rparr> ''my-gcs'' world0) = Inr (''checkpoint-100'', files))"
proof -
  define objs where "objs =
     [\<lparr>Key = ''run/checkpoint-100/config.json'', LastModified = 50000000\<rparr>,
      \<lparr>Key = ''run/checkpoint-100/weights.bin'', LastModified = 51000000\<rparr>,
      \<lparr>Key = ''run/checkpoint-50/config.json'', LastModified = 20000000\<rparr>,
      \<lparr>Key = ''run/checkpoint-50/weights.bin'', LastModified = 21000000\<rparr>]"
  define blobs where "blobs =
     [\<lparr>name = ''run/checkpoint-100/config.json'', time_created = 50000000\<rparr>,
      \<lparr>name = ''run/checkpoint-100/weights.bin'', time_created = 51000000\<rparr>,
      \<lparr>name = ''run/checkpoint-50/config.json'', time_created = 20000000\<rparr>,
      \<lparr>name = ''run/checkpoint-50/weights.bin'', time_created = 21000000\<rparr>]"
  have conv: "strftime_s two_checkpoints_env = utc_strftime_s"
    by (simp add: two_checkpoints_env_def)
  have latest: "\<lparr>Key = ''run/checkpoint-100/weights.bin'', LastModified = 51000000\<rparr> =
      last (sort_key (\<lambda>ob. strftime_s two_checkpoints_env (LastModified ob)) objs)"
    by (simp add: objs_def conv utc_strftime_s_def)
  have newest: "\<lparr>name = ''run/checkpoint-100/weights.bin'', time_created = 51000000\<rparr> =
      last (sort_key (\<lambda>bl. strftime_s two_checkpoints_env (time_created bl)) blobs)"
    by (simp add: blobs_def conv utc_strftime_s_def)
  have s3: "Contents (s3_response two_checkpoints_env ''hf-demo-s3-checkpointing-sagemaker'') = Some objs"
    by (simp add: two_checkpoints_env_def objs_def)
  have gcs: "gcs_blobs two_checkpoints_env ''my-gcs'' = blobs"
    by (simp add: two_checkpoints_env_def blobs_def)
  have quiet: "\<And>c. \<not> raises two_checkpoints_env c"
    by (simp add: two_checkpoints_env_def)
  have ne: "objs \<noteq> []" "blobs \<noteq> []"
    by (simp_all add: objs_def blobs_def)
  have m1: "\<forall>a \<in> set objs. \<forall>b \<in> set objs. LastModified a < LastModified b
      \<longrightarrow> strftime_s two_checkpoints_env (LastModified a) < strftime_s two_checkpoints_env (LastModified b)"
    by (simp add: objs_def conv utc_strftime_s_def)
  have m2: "\<forall>a \<in> set blobs. \<forall>b \<in> set blobs. time_created a < time_created b
      \<longrightarrow> strftime_s two_checkpoints_env (time_created a) < strftime_s two_checkpoints_env (time_created b)"
    by (simp add: blobs_def conv utc_strftime_s_def)
  show ?thesis
    using C3_latest_checkpoint_dir [OF latest newest, where g = run_globals and w = world0
        and bucket = "''my-gcs''"] s3 gcs quiet ne m1 m2
    by simp
qed

text \<open>
  The claim as worded fails on a listing whose most recent key has no \<open>/\<close>: the
  listing is not empty, yet no directory is selected, \<^verbatim>\<open>split("/")[1]\<close> raises.
\<close>

theorem C3_key_without_directory_counterexample:
  "Contents (s3_response flat_key_env ''hf-demo-s3-checkpointing-sagemaker'') =
     Some [\<lparr>Key = ''weights.bin'', LastModified = 5000000\<rparr>]
   \<and> fst (get_last_checkpoint_from_s3 run_globals flat_key_env \<lparr>bucket_type = ''s3''\<rparr> world0) =
       Inl (IndexError ''list index out of range'')
   \<and> gcs_blobs flat_key_env ''my-gcs'' = [\<lparr>name = ''weights.bin'', time_created = 5000000\<rparr>]
   \<and> fst (get_last_checkpoint_from_gcs run_globals flat_key_env \<lparr>bucket_type = ''gcs''\<rparr> ''my-gcs'' world0) =
       Inl (IndexError ''list index out of range'')"
  by (simp add: flat_key_env_def get_last_checkpoint_from_s3_def get_last_checkpoint_from_gcs_def
      Let_def item_last_def item_1_def)

text \<open>
  The sort key does not always follow the time stamps.  Across the start of daylight
  saving time, on a platform that is not in UTC, the blob created at 03:10 gets a smaller
  key than the one created at 02:30, and the older checkpoint is selected.
\<close>

lemma get_last_checkpoint_from_gcs_dst_start:
  "fst (get_last_checkpoint_from_gcs run_globals dst_env \<lparr>bucket_type = ''gcs''\<rparr> ''my-gcs'' world0) =
     Inr (''checkpoint-100'', [''run/checkpoint-100/weights.bin''])"
  by (simp add: dst_env_def get_last_checkpoint_from_gcs_def paris_strftime_s_def
      Let_def item_last_def item_1_def)

section \<open>The loader: the files to download\<close>





















section \<open>The loader: empty location, return value, backend kind and bucket names\<close>

text \<open>
  C5 (as the code has it).  On a location without objects the fetch raises and writes
  nothing to the local disk: no directory is created and no file is downloaded; the only
  calls issued are the progress message and the listing (after the bucket lookup, for
  GCS).  The code has no check for the empty location and no error of its own for it:
  what is raised is the \<^verbatim>\<open>KeyError('Contents')\<close> of the unguarded
  \<^verbatim>\<open>response["Contents"]\<close> for S3, whose response has no \<^verbatim>\<open>Contents\<close> entry then,
  and the \<^verbatim>\<open>IndexError\<close> of the unguarded \<^verbatim>\<open>sorted_keys[-1]\<close> for GCS (and for an S3
  response with an empty \<^verbatim>\<open>Contents\<close>).
\<close>

theorem C5_empty_location_raises:
  "(bucket_type self = ''s3''
      \<and> \<not> raises e (S3_list_objects_v2 ''hf-demo-s3-checkpointing-sagemaker'')
      \<and> (Contents (s3_response e ''hf-demo-s3-checkpointing-sagemaker'') = None
         \<or> Contents (s3_response e ''hf-demo-s3-checkpointing-sagemaker'') = Some [])
    \<longrightarrow> download_checkpoints g e self w =
          (Inl (if Contents (s3_response e ''hf-demo-s3-checkpointing-sagemaker'') = None
                then KeyError ''Contents'' else IndexError ''list index out of range''),
           w\<lparr>calls := calls w @ [Print ''Downloading checkpoints from S3...'',
                                  S3_list_objects_v2 ''hf-demo-s3-checkpointing-sagemaker'']\<rparr>)
        \<and> filter is_fs_write (calls (snd (download_checkpoints g e self w))) =
            filter is_fs_write (calls w))
   \<and> (bucket_type self = ''gcs''
      \<and> \<not> raises e (GCS_get_bucket (gcs_bucket_name g))
      \<and> \<not> raises e (GCS_list_blobs (gcs_bucket_name g))
      \<and> gcs_blobs e (gcs_bucket_name g) = []
    \<longrightarrow> download_checkpoints g e self w =
          (Inl (IndexError ''list index out of range''),
           w\<lparr>calls := calls w @ [GCS_get_bucket (gcs_bucket_name g),
                                  Print ''Downloading checkpoints from GCS...'',
                                  GCS_list_blobs (gcs_bucket_name g)]\<rparr>)
        \<and> filter is_fs_write (calls (snd (download_checkpoints g e self w))) =
            filter is_fs_write (calls w))"
  by (auto simp: download_checkpoints_def get_last_checkpoint_from_s3_def
      get_last_checkpoint_from_gcs_def gcs_get_bucket_def issue_def Let_def item_last_def)

theorem C5_empty_location_raises_witness:
  "download_checkpoints run_globals empty_env \<lparr>bucket_type = ''s3''\<rparr> world0 =
     (Inl (KeyError ''Contents''),
      \<lparr>calls = [Print ''Downloading checkpoints from S3...'',
                S3_list_objects_v2 ''hf-demo-s3-checkpointing-sagemaker''],
       uploaded = [], local_dirs = [], local_files = []\<rparr>)
   \<and> download_checkpoints run_globals empty_env \<lparr>bucket_type = ''gcs''\<rparr> world0 =
     (Inl (IndexError ''list index out of range''),
      \<lparr>calls = [GCS_get_bucket ''my-gcs'', Print ''Downloading checkpoints from GCS...'',
                GCS_list_blobs ''my-gcs''],
       uploaded = [], local_dirs = [], local_files = []\<rparr>)"
  using C5_empty_location_raises [where self = "\<lparr>bucket_type = ''s3''\<rparr>" and e = empty_env
      and g = run_globals and w = world0]
    C5_empty_location_raises [where self = "\<lparr>bucket_type = ''gcs''\<rparr>" and e = empty_env
      and g = run_globals and w = world0]
  by (simp add: empty_env_def run_globals_def world0_def)

text \<open>
  The claim as worded names an error of the empty location.  No such error is raised:
  the two backends raise different exceptions on the empty location, and the one of GCS
  is the very exception raised on the non-empty listing that holds \<^verbatim>\<open>weights.bin\<close>.
\<close>

theorem C5_no_empty_location_error_counterexample:
  "fst (download_checkpoints run_globals empty_env \<lparr>bucket_type = ''s3''\<rparr> world0) =
     Inl (KeyError ''Contents'')
   \<and> fst (download_checkpoints run_globals empty_env \<lparr>bucket_type = ''gcs''\<rparr> world0) =
     Inl (IndexError ''list index out of range'')
   \<and> fst (download_checkpoints run_globals empty_env \<lparr>bucket_type = ''s3''\<rparr> world0) \<noteq>
     fst (download_checkpoints run_globals empty_env \<lparr>bucket_type = ''gcs''\<rparr> world0)
   \<and> gcs_blobs flat_key_env (gcs_bucket_name run_globals) =
     [\<lparr>name = ''weights.bin'', time_created = 5000000\<rparr>]
   \<and> fst (download_checkpoints run_globals flat_key_env \<lparr>bucket_type = ''gcs''\<rparr> world0) =
     fst (download_checkpoints run_globals empty_env \<lparr>bucket_type = ''gcs''\<rparr> world0)"
  by (simp add: download_checkpoints_def run_globals_def empty_env_def flat_key_env_def world0_def
      get_last_checkpoint_from_s3_def get_last_checkpoint_from_gcs_def gcs_get_bucket_def
      issue_def Let_def item_last_def item_1_def)

lemma download_checkpoints_returns_None:
  "fst (download_checkpoints g e self w) = Inr r \<Longrightarrow> r = None"
  by (auto simp: download_checkpoints_def Let_def split: if_splits prod.splits sum.splits)

text \<open>
  C1.  The docstring of \<^verbatim>\<open>download_checkpoints\<close> promises the path of the downloaded
  checkpoint, and the notebook passes the result to \<^verbatim>\<open>from_pretrained\<close>.  The method
  has no \<^verbatim>\<open>return\<close>: on the notebook's own configuration, with one checkpoint in the
  bucket, the call creates \<^verbatim>\<open>trainer-demo-checkpointing/checkpoint-100\<close>, downloads
  its files and returns \<^verbatim>\<open>None\<close>, not that path.
\<close>

theorem C1_download_checkpoints_returns_None:
  "download_checkpoints notebook_globals notebook_env \<lparr>bucket_type = ''s3''\<rparr> world0 =
     (Inr None,
      \<lparr>calls = [Print ''Downloading checkpoints from S3...'',
                S3_list_objects_v2 ''hf-demo-s3-checkpointing-sagemaker'',
                Os_makedirs ''trainer-demo-checkpointing/checkpoint-100'',
                S3_download_file ''hf-demo-s3-checkpointing-sagemaker''
                  ''trainer-demo-checkpointing/checkpoint-100/config.json''
                  ''trainer-demo-checkpointing/checkpoint-100/config.json'',
                S3_download_file ''hf-demo-s3-checkpointing-sagemaker''
                  ''trainer-demo-checkpointing/checkpoint-100/pytorch_model.bin''
                  ''trainer-demo-checkpointing/checkpoint-100/pytorch_model.bin''],
       uploaded = [],
       local_dirs = [(False, [''trainer-demo-checkpointing'']),
                     (False, [''trainer-demo-checkpointing'', ''checkpoint-100''])],
       local_files = [(False, [''trainer-demo-checkpointing'', ''checkpoint-100'', ''config.json'']),
                      (False, [''trainer-demo-checkpointing'', ''checkpoint-100'', ''pytorch_model.bin''])]\<rparr>)
   \<and> fst (download_checkpoints notebook_globals notebook_env \<lparr>bucket_type = ''s3''\<rparr> world0) \<noteq>
       Inr (Some ''trainer-demo-checkpointing/checkpoint-100'')
   \<and> fst (download_checkpoints notebook_globals notebook_env \<lparr>bucket_type = ''gcs''\<rparr> world0) =
       Inr None"
  by (simp add: download_checkpoints_def notebook_globals_def notebook_env_def world0_def
      get_last_checkpoint_from_s3_def get_last_checkpoint_from_gcs_def gcs_get_bucket_def
      os_makedirs_def local_write_def local_path_def parent_def makedirs_paths_def dir_exists_def
      utc_strftime_s_def issue_def Let_def item_last_def item_1_def)

lemma local_write_error:
  "local_write f w = Inl err \<Longrightarrow> err = FileNotFoundError f \<or> err = IsADirectoryError f"
  by (auto simp: local_write_def Let_def split: if_splits)

lemma local_write_calls: "local_write f w = Inr w' \<Longrightarrow> calls w' = calls w"
  by (auto simp: local_write_def Let_def split: if_splits)

lemma os_makedirs_calls: "calls (snd (os_makedirs e path w)) = calls w @ [Os_makedirs path]"
  by (simp add: os_makedirs_def Let_def)

lemma os_makedirs_error:
  "fst (os_makedirs e path w) = Inl err \<Longrightarrow> err = FileNotFoundError path \<or> err = OSError path"
  by (auto simp: os_makedirs_def Let_def split: if_splits)

lemma s3_download_loop_error:
  "fst (s3_download_loop g e fs w) = Inl err \<Longrightarrow> err \<noteq> ValueError msg"
proof (induction fs arbitrary: w)
  case Nil
  then show ?case by simp
next
  case (Cons a fs)
  let ?w' = "issue (S3_download_file (s3_bucket_name g) a a) w"
  show ?case
  proof (cases "local_write a ?w'")
    case (Inl x)
    with Cons.prems local_write_error [of a ?w' x] show ?thesis
      by (auto simp: Let_def split: if_splits)
  next
    case (Inr w'')
    with Cons.prems Cons.IH [of w''] show ?thesis
      by (auto simp: Let_def split: if_splits)
  qed
qed

lemma gcs_download_loop_error:
  "fst (gcs_download_loop e bucket fs w) = Inl err \<Longrightarrow> err \<noteq> ValueError msg"
proof (induction fs arbitrary: w)
  case Nil
  then show ?case by simp
next
  case (Cons a fs)
  let ?w' = "issue (GCS_download_to_filename bucket a a) w"
  show ?case
  proof (cases "local_write a ?w'")
    case (Inl x)
    with Cons.prems local_write_error [of a ?w' x] show ?thesis
      by (auto simp: Let_def split: if_splits)
  next
    case (Inr w'')
    with Cons.prems Cons.IH [of w''] show ?thesis
      by (auto simp: Let_def split: if_splits)
  qed
qed

lemma get_last_checkpoint_from_s3_error:
  "fst (get_last_checkpoint_from_s3 g e self w) = Inl err \<Longrightarrow> err \<noteq> ValueError msg"
  by (auto simp: get_last_checkpoint_from_s3_def Let_def item_last_def item_1_def
      split: if_splits option.splits sum.splits)

lemma get_last_checkpoint_from_gcs_error:
  "fst (get_last_checkpoint_from_gcs g e self bucket w) = Inl err \<Longrightarrow> err \<noteq> ValueError msg"
  by (auto simp: get_last_checkpoint_from_gcs_def Let_def item_last_def item_1_def
      split: if_splits option.splits sum.splits)

lemma download_checkpoints_no_ValueError:
  assumes "bucket_type self \<in> {''s3'', ''gcs''}"
  shows "fst (download_checkpoints g e self w) \<noteq> Inl (ValueError msg)"
proof (cases "bucket_type self = ''s3''")
  case True
  let ?w1 = "issue (Print ''Downloading checkpoints from S3...'') w"
  show ?thesis
  proof (cases "get_last_checkpoint_from_s3 g e self ?w1")
    case (Pair res w2)
    show ?thesis
    proof (cases res)
      case (Inl err)
      with Pair True get_last_checkpoint_from_s3_error [of g e self ?w1 err msg]
      show ?thesis by (simp add: download_checkpoints_def Let_def)
    next
      case (Inr sel)
      obtain d files where sel: "sel = (d, files)" by (cases sel)
      obtain mres w3 where mk: "os_makedirs e (training_name g @ ''/'' @ d) w2 = (mres, w3)"
        by (cases "os_makedirs e (training_name g @ ''/'' @ d) w2")
      have mk_err: "\<And>x. mres = Inl x \<Longrightarrow> x \<noteq> ValueError msg"
        using mk os_makedirs_error [of e "training_name g @ ''/'' @ d" w2] by auto
      obtain lres w4 where lp: "s3_download_loop g e files w3 = (lres, w4)"
        by (cases "s3_download_loop g e files w3")
      have lp_err: "\<And>x. lres = Inl x \<Longrightarrow> x \<noteq> ValueError msg"
        using s3_download_loop_error [of g e files w3] lp by simp
      show ?thesis
        using True Pair Inr sel mk lp mk_err lp_err
        by (cases mres; cases lres) (auto simp: download_checkpoints_def Let_def)
    qed
  qed
next
  case False
  with assms have gcs: "bucket_type self = ''gcs''" by simp
  let ?b = "gcs_bucket_name g"
  show ?thesis
  proof (cases "raises e (GCS_get_bucket ?b)")
    case True
    then show ?thesis
      using False gcs by (simp add: download_checkpoints_def gcs_get_bucket_def Let_def)
  next
    case nr: False
    let ?w1 = "issue (Print ''Downloading checkpoints from GCS...'') (issue (GCS_get_bucket ?b) w)"
    show ?thesis
    proof (cases "get_last_checkpoint_from_gcs g e self ?b ?w1")
      case (Pair res w2)
      show ?thesis
      proof (cases res)
        case (Inl err)
        with Pair False gcs nr get_last_checkpoint_from_gcs_error [of g e self ?b ?w1 err msg]
        show ?thesis by (simp add: download_checkpoints_def gcs_get_bucket_def Let_def)
      next
        case (Inr sel)
        obtain d files where sel: "sel = (d, files)" by (cases sel)
        obtain mres w3 where mk: "os_makedirs e (training_name g @ ''/'' @ d) w2 = (mres, w3)"
          by (cases "os_makedirs e (training_name g @ ''/'' @ d) w2")
        have mk_err: "\<And>x. mres = Inl x \<Longrightarrow> x \<noteq> ValueError msg"
          using mk os_makedirs_error [of e "training_name g @ ''/'' @ d" w2] by auto
        obtain lres w4 where lp: "gcs_download_loop e ?b files w3 = (lres, w4)"
          by (cases "gcs_download_loop e ?b files w3")
        have lp_err: "\<And>x. lres = Inl x \<Longrightarrow> x \<noteq> ValueError msg"
          using gcs_download_loop_error [of e ?b files w3] lp by simp
        show ?thesis
          using False gcs nr Pair Inr sel mk lp mk_err lp_err
          by (cases mres; cases lres) (auto simp: download_checkpoints_def gcs_get_bucket_def Let_def)
      qed
    qed
  qed
qed

text \<open>
  C9.  A loader that the constructor returns has \<open>bucket_type\<close> \<open>s3\<close> or \<open>gcs\<close>.  The
  methods read the attribute and never assign it (the loader is a value that they are
  given and do not return changed), so every later \<^verbatim>\<open>download_checkpoints\<close>, in any
  world and environment, runs one of the first two branches: the \<^verbatim>\<open>ValueError\<close> of the
  final \<^verbatim>\<open>else\<close> is never raised.
\<close>

theorem C9_bucket_type_invariant:
  assumes "CloudCheckpointLoader_init bt w0 = (Inr self, w1)"
  shows "bucket_type self \<in> {''s3'', ''gcs''}
       \<and> (\<forall>g e w msg. fst (download_checkpoints g e self w) \<noteq> Inl (ValueError msg))"
proof -
  from assms have inv: "bucket_type self \<in> {''s3'', ''gcs''}"
    by (auto simp: CloudCheckpointLoader_init_def Let_def split: if_splits)
  then show ?thesis
    using download_checkpoints_no_ValueError [OF inv] by simp
qed

theorem C9_bucket_type_invariant_witness:
  "CloudCheckpointLoader_init ''gcs'' world0 = (Inr \<lparr>bucket_type = ''gcs''\<rparr>, world0)
   \<and> fst (download_checkpoints run_globals empty_env \<lparr>bucket_type = ''gcs''\<rparr> world0) \<noteq>
       Inl (ValueError ''Invalid bucket type. Please choose either s3 or gcs'')"
proof -
  have init: "CloudCheckpointLoader_init ''gcs'' world0 = (Inr \<lparr>bucket_type = ''gcs''\<rparr>, world0)"
    by (simp add: CloudCheckpointLoader_init_def)
  from C9_bucket_type_invariant [OF init] init show ?thesis by blast
qed

lemma s3_download_loop_calls:
  "c \<in> set (calls (snd (s3_download_loop g e fs w))) \<Longrightarrow>
     c \<in> set (calls w) \<or> (\<exists>f. c = S3_download_file (s3_bucket_name g) f f)"
proof (induction fs arbitrary: w)
  case Nil
  then show ?case by simp
next
  case (Cons a fs)
  let ?w' = "issue (S3_download_file (s3_bucket_name g) a a) w"
  show ?case
  proof (cases "local_write a ?w'")
    case (Inl x)
    with Cons.prems show ?thesis
      by (auto simp: Let_def split: if_splits)
  next
    case (Inr w'')
    with Cons.prems Cons.IH [of w''] local_write_calls [OF Inr] show ?thesis
      by (auto simp: Let_def split: if_splits)
  qed
qed

lemma gcs_download_loop_calls:
  "c \<in> set (calls (snd (gcs_download_loop e bucket fs w))) \<Longrightarrow>
     c \<in> set (calls w) \<or> (\<exists>f. c = GCS_download_to_filename bucket f f)"
proof (induction fs arbitrary: w)
  case Nil
  then show ?case by simp
next
  case (Cons a fs)
  let ?w' = "issue (GCS_download_to_filename bucket a a) w"
  show ?case
  proof (cases "local_write a ?w'")
    case (Inl x)
    with Cons.prems show ?thesis
      by (auto simp: Let_def split: if_splits)
  next
    case (Inr w'')
    with Cons.prems Cons.IH [of w''] local_write_calls [OF Inr] show ?thesis
      by (auto simp: Let_def split: if_splits)
  qed
qed

lemma download_checkpoints_s3_download_calls:
  assumes "S3_download_file b k f \<in> set (calls (snd (download_checkpoints g e self w)))"
  shows "S3_download_file b k f \<in> set (calls w) \<or> b = s3_bucket_name g"
proof (cases "bucket_type self = ''s3''")
  case True
  let ?w1 = "issue (Print ''Downloading checkpoints from S3...'') w"
  let ?w2 = "issue (S3_list_objects_v2 ''hf-demo-s3-checkpointing-sagemaker'') ?w1"
  obtain res w2 where sel: "get_last_checkpoint_from_s3 g e self ?w1 = (res, w2)"
    by (cases "get_last_checkpoint_from_s3 g e self ?w1")
  have w2: "w2 = ?w2"
    using get_last_checkpoint_from_s3_world [of g e self ?w1] sel by simp
  show ?thesis
  proof (cases res)
    case (Inl err)
    with True sel w2 assms show ?thesis
      by (simp add: download_checkpoints_def Let_def)
  next
    case (Inr p)
    obtain d files where p: "p = (d, files)" by (cases p)
    obtain mres w3 where mk: "os_makedirs e (training_name g @ ''/'' @ d) ?w2 = (mres, w3)"
      by (cases "os_makedirs e (training_name g @ ''/'' @ d) ?w2")
    have c3: "calls w3 = calls ?w2 @ [Os_makedirs (training_name g @ ''/'' @ d)]"
      using os_makedirs_calls [of e "training_name g @ ''/'' @ d" ?w2] mk by simp
    show ?thesis
    proof (cases mres)
      case (Inl err)
      with True sel w2 Inr p mk c3 assms show ?thesis
        by (simp add: download_checkpoints_def Let_def)
    next
      case mok: (Inr u)
      have "snd (download_checkpoints g e self w) = snd (s3_download_loop g e files w3)"
        using True sel w2 Inr p mk mok
        by (simp add: download_checkpoints_def Let_def split: prod.splits sum.splits)
      with assms s3_download_loop_calls [of "S3_download_file b k f" g e files w3] c3
      show ?thesis by auto
    qed
  qed
next
  case False
  show ?thesis
  proof (cases "bucket_type self = ''gcs''")
    case gcs: True
    let ?b = "gcs_bucket_name g"
    show ?thesis
    proof (cases "raises e (GCS_get_bucket ?b)")
      case True
      with False gcs assms show ?thesis
        by (simp add: download_checkpoints_def gcs_get_bucket_def Let_def)
    next
      case nr: False
      let ?w1 = "issue (Print ''Downloading checkpoints from GCS...'') (issue (GCS_get_bucket ?b) w)"
      let ?w2 = "issue (GCS_list_blobs ?b) ?w1"
      obtain res w2 where sel: "get_last_checkpoint_from_gcs g e self ?b ?w1 = (res, w2)"
        by (cases "get_last_checkpoint_from_gcs g e self ?b ?w1")
      have w2: "w2 = ?w2"
        using get_last_checkpoint_from_gcs_world [of g e self ?b ?w1] sel by simp
      show ?thesis
      proof (cases res)
        case (Inl err)
        with False gcs nr sel w2 assms show ?thesis
          by (simp add: download_checkpoints_def gcs_get_bucket_def Let_def)
      next
        case (Inr p)
        obtain d files where p: "p = (d, files)" by (cases p)
        obtain mres w3 where mk: "os_makedirs e (training_name g @ ''/'' @ d) ?w2 = (mres, w3)"
          by (cases "os_makedirs e (training_name g @ ''/'' @ d) ?w2")
        have c3: "calls w3 = calls ?w2 @ [Os_makedirs (training_name g @ ''/'' @ d)]"
          using os_makedirs_calls [of e "training_name g @ ''/'' @ d" ?w2] mk by simp
        show ?thesis
        proof (cases mres)
          case (Inl err)
          with False gcs nr sel w2 Inr p mk c3 assms show ?thesis
            by (simp add: download_checkpoints_def gcs_get_bucket_def Let_def)
        next
          case mok: (Inr u)
          have "snd (download_checkpoints g e self w) = snd (gcs_download_loop e ?b files w3)"
            using False gcs nr sel w2 Inr p mk mok
            by (simp add: download_checkpoints_def gcs_get_bucket_def Let_def
                split: prod.splits sum.splits)
          with assms gcs_download_loop_calls [of "S3_download_file b k f" e ?b files w3] c3
          show ?thesis by auto
        qed
      qed
    qed
  next
    case False
    with \<open>bucket_type self \<noteq> ''s3''\<close> assms show ?thesis
      by (simp add: download_checkpoints_def)
  qed
qed

text \<open>
  C10.  The listing of \<^verbatim>\<open>__get_last_checkpoint_from_s3\<close> names the literal bucket
  \<^verbatim>\<open>hf-demo-s3-checkpointing-sagemaker\<close>, whatever \<^verbatim>\<open>s3_bucket_name\<close> is: two
  configurations that differ in \<^verbatim>\<open>s3_bucket_name\<close> only get the same selection and the
  same world from it, and the one call it issues lists that bucket.  The downloads of
  \<^verbatim>\<open>download_checkpoints\<close> read the configured bucket: every \<^verbatim>\<open>download_file\<close> call
  it adds names \<^verbatim>\<open>s3_bucket_name\<close>.
\<close>

theorem C10_listing_ignores_s3_bucket_name:
  "get_last_checkpoint_from_s3 (g\<lparr>s3_bucket_name := b\<rparr>) e self w =
     get_last_checkpoint_from_s3 g e self w
   \<and> calls (snd (get_last_checkpoint_from_s3 g e self w)) =
       calls w @ [S3_list_objects_v2 ''hf-demo-s3-checkpointing-sagemaker'']
   \<and> (\<forall>b' k f. S3_download_file b' k f \<in> set (calls (snd (download_checkpoints g e self w)))
         \<longrightarrow> S3_download_file b' k f \<in> set (calls w) \<or> b' = s3_bucket_name g)"
proof -
  have "get_last_checkpoint_from_s3 (g\<lparr>s3_bucket_name := b\<rparr>) e self w =
     get_last_checkpoint_from_s3 g e self w"
    by (simp add: get_last_checkpoint_from_s3_def)
  moreover have "calls (snd (get_last_checkpoint_from_s3 g e self w)) =
       calls w @ [S3_list_objects_v2 ''hf-demo-s3-checkpointing-sagemaker'']"
    by (simp add: get_last_checkpoint_from_s3_world)
  ultimately show ?thesis
    using download_checkpoints_s3_download_calls [of _ _ _ g e self w] by blast
qed

theorem C10_listing_ignores_s3_bucket_name_witness:
  "S3_download_file ''my-bucket'' ''run/checkpoint-100/weights.bin'' ''run/checkpoint-100/weights.bin''
     \<in> set (calls (snd (download_checkpoints run_globals two_checkpoints_env \<lparr>bucket_type = ''s3''\<rparr> world0)))
   \<and> S3_download_file ''my-bucket'' ''run/checkpoint-100/weights.bin'' ''run/checkpoint-100/weights.bin''
     \<notin> set (calls world0)
   \<and> ''my-bucket'' = s3_bucket_name run_globals
   \<and> S3_list_objects_v2 ''hf-demo-s3-checkpointing-sagemaker''
     \<in> set (calls (snd (download_checkpoints run_globals two_checkpoints_env \<lparr>bucket_type = ''s3''\<rparr> world0)))
   \<and> get_last_checkpoint_from_s3 (run_globals\<lparr>s3_bucket_name := ''other-bucket''\<rparr>) two_checkpoints_env
       \<lparr>bucket_type = ''s3''\<rparr> world0 =
     get_last_checkpoint_from_s3 run_globals two_checkpoints_env \<lparr>bucket_type = ''s3''\<rparr> world0"
proof -
  have run: "calls (snd (download_checkpoints run_globals two_checkpoints_env \<lparr>bucket_type = ''s3''\<rparr> world0)) =
      [Print ''Downloading checkpoints from S3...'',
       S3_list_objects_v2 ''hf-demo-s3-checkpointing-sagemaker'',
       Os_makedirs ''run/checkpoint-100'',
       S3_download_file ''my-bucket'' ''run/checkpoint-100/config.json'' ''run/checkpoint-100/config.json'',
       S3_download_file ''my-bucket'' ''run/checkpoint-100/weights.bin'' ''run/checkpoint-100/weights.bin'']"
    by (simp add: download_checkpoints_def run_globals_def two_checkpoints_env_def world0_def
        get_last_checkpoint_from_s3_def os_makedirs_def local_write_def local_path_def parent_def
        makedirs_paths_def dir_exists_def utc_strftime_s_def issue_def Let_def item_last_def
        item_1_def)
  have mem: "S3_download_file ''my-bucket'' ''run/checkpoint-100/weights.bin'' ''run/checkpoint-100/weights.bin''
     \<in> set (calls (snd (download_checkpoints run_globals two_checkpoints_env \<lparr>bucket_type = ''s3''\<rparr> world0)))"
    by (simp add: run)
  have fresh: "S3_download_file ''my-bucket'' ''run/checkpoint-100/weights.bin'' ''run/checkpoint-100/weights.bin''
     \<notin> set (calls world0)"
    by (simp add: world0_def)
  from C10_listing_ignores_s3_bucket_name [where g = run_globals and e = two_checkpoints_env
      and self = "\<lparr>bucket_type = ''s3''\<rparr>" and w = world0 and b = "''other-bucket''"]
  have "''my-bucket'' = s3_bucket_name run_globals"
    and "get_last_checkpoint_from_s3 (run_globals\<lparr>s3_bucket_name := ''other-bucket''\<rparr>) two_checkpoints_env
       \<lparr>bucket_type = ''s3''\<rparr> world0 =
     get_last_checkpoint_from_s3 run_globals two_checkpoints_env \<lparr>bucket_type = ''s3''\<rparr> world0"
    using mem fresh by blast+
  then show ?thesis
    using mem fresh by (simp add: run)
qed

end
